theory Spec2Isabelle
  imports Complex_Main "HOL-Library.AList"
begin

section \<open>Python values, exceptions and objects\<close>

text \<open>
  The two modules are Python: \<^verbatim>\<open>nes/base/__init__.py\<close> (the metaclass \<^verbatim>\<open>TrainableType\<close>
  and the class \<^verbatim>\<open>TrainableBase\<close>) and \<^verbatim>\<open>gnes/encoder/w2v.py\<close> (\<^verbatim>\<open>Word2VecEncoder\<close>).
  A Python object is its attribute dictionary \<^verbatim>\<open>__dict__\<close>; a \<^verbatim>\<open>dict\<close> is an association
  list with distinct keys in insertion order, written with \<^const>\<open>AList.update\<close> (an existing
  key keeps its place, a new key goes to the end, as in Python) and \<^const>\<open>AList.delete\<close>.

  \<^verbatim>\<open>Empty\<close> is \<^verbatim>\<open>inspect.Parameter.empty\<close>, the default of a parameter that has none.
  \<^verbatim>\<open>Logger n v\<close> stands for the handle returned by the helper \<^verbatim>\<open>set_logger(n, v)\<close> and
  \<^verbatim>\<open>MemoryCache p\<close> for \<^verbatim>\<open>MemoryCache(cache_path=p)\<close>; both helpers live in a module that
  is not part of the two files, so the handles are kept symbolic. Arrays of \<^verbatim>\<open>float32\<close> are
  lists of reals: rounding is not modelled.
\<close>

datatype pyval =
    Empty
  | PNone
  | PBool bool
  | PInt int
  | PStr string
  | PTuple "pyval list"
  | PList "pyval list"
  | PDict "(string \<times> pyval) list"
  | Logger string pyval
  | MemoryCache string
  | NdArray "real list"

datatype exn =
    TypeError
  | ValueError
  | IndexError
  | RuntimeError string
  | AttributeError string
  | KeyError string
  | RepresenterError

type_synonym pydict = "(string \<times> pyval) list"

type_synonym pyobj = "(string \<times> pyval) list"

text \<open>Records written to the logging handle; only warnings are tracked.\<close>

datatype log_record = LogWarning string

text \<open>
  Truth value of an object, as \<^verbatim>\<open>if x:\<close> computes it. The code tests only attribute values
  and argument collections; an array of more than one element has no truth value in NumPy
  (it raises), and no array is ever tested.
\<close>

fun truthy :: "pyval \<Rightarrow> bool" where
  "truthy PNone = False"
| "truthy (PBool b) = b"
| "truthy (PInt i) = (i \<noteq> 0)"
| "truthy (PStr s) = (s \<noteq> [])"
| "truthy (PTuple xs) = (xs \<noteq> [])"
| "truthy (PList xs) = (xs \<noteq> [])"
| "truthy (PDict d) = (d \<noteq> [])"
| "truthy (NdArray v) = (case v of [x] \<Rightarrow> x \<noteq> 0 | _ \<Rightarrow> False)"
| "truthy _ = True"

text \<open>
  \<^verbatim>\<open>x != y\<close> on plain data. \<^verbatim>\<open>bool\<close> is a subclass of \<^verbatim>\<open>int\<close>, so \<^verbatim>\<open>0 == False\<close> and
  \<^verbatim>\<open>1 == True\<close>. The code compares attribute values with the scalar defaults \<^verbatim>\<open>False\<close> and
  \<^verbatim>\<open>None\<close> only, so the coercion is written out at top level.
\<close>

fun py_ne :: "pyval \<Rightarrow> pyval \<Rightarrow> bool" where
  "py_ne (PBool a) (PInt b) = (b \<noteq> (if a then 1 else 0))"
| "py_ne (PInt a) (PBool b) = (a \<noteq> (if b then 1 else 0))"
| "py_ne x y = (x \<noteq> y)"

definition setattr :: "pyobj \<Rightarrow> string \<Rightarrow> pyval \<Rightarrow> pyobj" where
  "setattr obj k v = AList.update k v obj"

definition hasattr :: "pyobj \<Rightarrow> string \<Rightarrow> bool" where
  "hasattr obj k = (map_of obj k \<noteq> None)"

definition dq :: string where
  "dq = [CHR 0x22]"

section \<open>TrainableType: the metaclass\<close>

text \<open>\<^verbatim>\<open>TrainableType.default_property\<close> (lines 15-18).\<close>

definition default_property :: pydict where
  "default_property = [(''is_trained'', PBool False), (''batch_size'', PNone)]"

text \<open>
  \<^verbatim>\<open>TrainableType._as_train_func\<close> (lines 42-53). A method is a function from the object to
  an outcome and the object as the call leaves it (an exception does not undo the
  mutations made before it). The wrapper also returns the warnings it logs.
  \<^verbatim>\<open>self.is_trained\<close> and \<^verbatim>\<open>self.logger\<close> raise \<^verbatim>\<open>AttributeError\<close> when the attribute is not
  there; \<^verbatim>\<open>cname\<close> is \<^verbatim>\<open>self.__class__.__name__\<close>.
\<close>

definition trained_already :: "string \<Rightarrow> string" where
  "trained_already cname =
     dq @ cname @ dq @ '' has been trained already, ''
       @ ''training it again will override the previous training''"

definition as_train_func ::
  "(pyobj \<Rightarrow> (exn + pyval) \<times> pyobj) \<Rightarrow> string \<Rightarrow> pyobj
     \<Rightarrow> log_record list \<times> (exn + pyval) \<times> pyobj" where
  "as_train_func func cname self =
     (case map_of self ''is_trained'' of
        None \<Rightarrow> ([], Inl (AttributeError ''is_trained''), self)
      | Some t \<Rightarrow>
          (case (if truthy t
                 then (case map_of self ''logger'' of
                         None \<Rightarrow> Inl (AttributeError ''logger'')
                       | Some (Logger n v) \<Rightarrow> Inr [LogWarning (trained_already cname)]
                       | Some _ \<Rightarrow> Inl (AttributeError ''warning''))
                 else Inr []) of
             Inl e \<Rightarrow> ([], Inl e, self)
           | Inr w \<Rightarrow>
               (case func self of
                  (Inl e, self') \<Rightarrow> (w, Inl e, self')
                | (Inr f, self') \<Rightarrow> (w, Inr f, setattr self' ''is_trained'' (PBool True)))))"

text \<open>
  \<^verbatim>\<open>TrainableType._store_init_kwargs\<close> (lines 55-82). \<^verbatim>\<open>all_pars\<close> is
  \<^verbatim>\<open>inspect.signature(func).parameters\<close>: the parameter names of the wrapped \<^verbatim>\<open>__init__\<close> in
  order (with \<^verbatim>\<open>self\<close>, \<^verbatim>\<open>args\<close>, \<^verbatim>\<open>kwargs\<close>), each with its default. \<^verbatim>\<open>captured_kwargs\<close> is
  the dictionary \<^verbatim>\<open>tmp\<close> of lines 59-73; \<^verbatim>\<open>self.store_args_kwargs\<close> is looked up on the
  object first and on its class next (\<^verbatim>\<open>flag\<close> is the class attribute).
\<close>

definition taboo :: "string set" where
  "taboo = {''self'', ''args'', ''kwargs''}"

definition self_store_args_kwargs :: "bool \<Rightarrow> pyobj \<Rightarrow> bool" where
  "self_store_args_kwargs flag self =
     (case map_of self ''store_args_kwargs'' of None \<Rightarrow> flag | Some v \<Rightarrow> truthy v)"

definition captured_kwargs :: "pydict \<Rightarrow> bool \<Rightarrow> pyval list \<Rightarrow> pydict \<Rightarrow> pydict" where
  "captured_kwargs all_pars store args kwargs =
     (let tmp0 = filter (\<lambda>(k, v). k \<notin> taboo) all_pars;
          tmp_list = filter (\<lambda>k. k \<notin> taboo) (map fst all_pars);
          tmp1 = fold (\<lambda>(k, v) tmp. AList.update k v tmp) (zip tmp_list args) tmp0;
          tmp2 = fold (\<lambda>(k, v) tmp. if k \<in> fst ` set tmp then AList.update k v tmp else tmp)
                   kwargs tmp1;
          tmp3 = (if store \<and> args \<noteq> [] then AList.update ''args'' (PTuple args) tmp2 else tmp2);
          tmp4 = (if store \<and> kwargs \<noteq> [] then AList.update ''kwargs'' (PDict kwargs) tmp3
                  else tmp3)
      in tmp4)"

text \<open>\<^verbatim>\<open>d.update(tmp)\<close> and \<^verbatim>\<open>{**k, **p}\<close>: the entries of the second dictionary win.\<close>

definition dict_update :: "pydict \<Rightarrow> pydict \<Rightarrow> pydict" where
  "dict_update d tmp = fold (\<lambda>(k, v) acc. AList.update k v acc) tmp d"

type_synonym init_fun =
  "string \<Rightarrow> bool \<Rightarrow> pyobj \<Rightarrow> pyval list \<Rightarrow> pydict \<Rightarrow> exn + pyobj"

definition store_init_kwargs :: "pydict \<Rightarrow> init_fun \<Rightarrow> init_fun" where
  "store_init_kwargs all_pars func cname flag self args kwargs =
     (let tmp = captured_kwargs all_pars (self_store_args_kwargs flag self) args kwargs
      in case (case map_of self ''_init_kwargs_dict'' of
                 None \<Rightarrow> Inr (setattr self ''_init_kwargs_dict'' (PDict tmp))
               | Some (PDict d) \<Rightarrow>
                   (if d \<noteq> []
                    then Inr (setattr self ''_init_kwargs_dict'' (PDict (dict_update d tmp)))
                    else Inr (setattr self ''_init_kwargs_dict'' (PDict tmp)))
               | Some v \<Rightarrow>
                   (if truthy v then Inl (AttributeError ''update'')
                    else Inr (setattr self ''_init_kwargs_dict'' (PDict tmp)))) of
           Inl e \<Rightarrow> Inl e
         | Inr self' \<Rightarrow> func cname flag self' args kwargs)"


text \<open>
  A class, as far as the metaclass sees it: its name, the class attribute
  \<^verbatim>\<open>store_args_kwargs\<close>, the signature of its own \<^verbatim>\<open>__init__\<close> and the body of that
  \<^verbatim>\<open>__init__\<close>. \<^verbatim>\<open>TrainableType.__new__\<close> (line 22) replaces \<^verbatim>\<open>cls.__init__\<close> by its wrapped
  form; profiling (lines 23-26) is off unless \<^verbatim>\<open>NES_PROFILING\<close> is set and is left out.
  The wrapper is \<^verbatim>\<open>arg_wrapper(self, *args, **kwargs)\<close>, so a keyword named \<^verbatim>\<open>self\<close> is a
  \<^verbatim>\<open>TypeError\<close> of the call itself.
\<close>

record py_class =
  cls_name :: string
  store_args_kwargs :: bool
  parameters :: pydict
  init_func :: init_fun

definition cls_init :: "py_class \<Rightarrow> pyobj \<Rightarrow> pyval list \<Rightarrow> pydict \<Rightarrow> exn + pyobj" where
  "cls_init cls self args kwargs =
     (if map_of kwargs ''self'' \<noteq> None then Inl TypeError
      else store_init_kwargs (parameters cls) (init_func cls) (cls_name cls)
             (store_args_kwargs cls) self args kwargs)"

text \<open>
  \<^verbatim>\<open>TrainableType.__call__\<close> (lines 34-40): \<^verbatim>\<open>type.__call__\<close> makes an object with an empty
  \<^verbatim>\<open>__dict__\<close> and runs \<^verbatim>\<open>__init__\<close> on it; then every default property the object does not
  have yet is set. The method is \<^verbatim>\<open>__call__(cls, *args, **kwargs)\<close>, so a keyword named
  \<^verbatim>\<open>cls\<close> is a \<^verbatim>\<open>TypeError\<close> of the call itself.
\<close>

definition metaclass_call :: "py_class \<Rightarrow> pyval list \<Rightarrow> pydict \<Rightarrow> exn + pyobj" where
  "metaclass_call cls args kwargs =
     (if map_of kwargs ''cls'' \<noteq> None then Inl TypeError
      else
        (case cls_init cls [] args kwargs of
           Inl e \<Rightarrow> Inl e
         | Inr obj \<Rightarrow>
             Inr (fold (\<lambda>(k, v) obj. if \<not> hasattr obj k then setattr obj k v else obj)
                    default_property obj)))"

section \<open>TrainableBase\<close>

text \<open>\<^verbatim>\<open>TrainableBase.__init__(self, *args, **kwargs)\<close> (lines 89-93).\<close>

definition TrainableBase_parameters :: pydict where
  "TrainableBase_parameters = [(''self'', Empty), (''args'', Empty), (''kwargs'', Empty)]"

definition TrainableBase_init :: init_fun where
  "TrainableBase_init cname flag self args kwargs =
     (let self1 = setattr self ''is_trained'' (PBool False);
          verbose = (case map_of kwargs ''verbose'' of None \<Rightarrow> PBool False | Some v \<Rightarrow> v);
          self2 = setattr self1 ''verbose'' verbose;
          self3 = setattr self2 ''logger'' (Logger cname verbose);
          self4 = setattr self3 ''memcached'' (MemoryCache ''.nes_cache'')
      in Inr self4)"

definition TrainableBase :: py_class where
  "TrainableBase =
     \<lparr>cls_name = ''TrainableBase'', store_args_kwargs = False,
      parameters = TrainableBase_parameters, init_func = TrainableBase_init\<rparr>"

text \<open>
  \<^verbatim>\<open>__getstate__\<close> (lines 95-99) and \<^verbatim>\<open>__setstate__\<close> (lines 101-104). \<^verbatim>\<open>del d[k]\<close> raises
  \<^verbatim>\<open>KeyError\<close> when the key is not there.
\<close>

definition py_del :: "pydict \<Rightarrow> string \<Rightarrow> exn + pydict" where
  "py_del d k = (if map_of d k = None then Inl (KeyError k) else Inr (AList.delete k d))"




text \<open>\<^verbatim>\<open>TrainableBase._train_required\<close> (lines 106-115); \<^verbatim>\<open>fname\<close> is \<^verbatim>\<open>func.__name__\<close>.\<close>

definition training_is_required :: "string \<Rightarrow> string" where
  "training_is_required fname = ''training is required before calling '' @ dq @ fname @ dq"

definition train_required ::
  "string \<Rightarrow> (pyobj \<Rightarrow> (exn + 'r) \<times> pyobj) \<Rightarrow> pyobj \<Rightarrow> (exn + 'r) \<times> pyobj" where
  "train_required fname func self =
     (case map_of self ''is_trained'' of
        None \<Rightarrow> (Inl (AttributeError ''is_trained''), self)
      | Some t \<Rightarrow>
          (if truthy t then func self
           else (Inl (RuntimeError (training_is_required fname)), self)))"

text \<open>
  \<^verbatim>\<open>TrainableBase.train\<close> (lines 117-118) does nothing and returns \<^verbatim>\<open>None\<close>; the metaclass
  wraps it (lines 28-29).
\<close>

definition TrainableBase_train :: "pyobj \<Rightarrow> (exn + pyval) \<times> pyobj" where
  "TrainableBase_train self = (Inr PNone, self)"

definition train :: "string \<Rightarrow> pyobj \<Rightarrow> log_record list \<times> (exn + pyval) \<times> pyobj" where
  "train cname self = as_train_func TrainableBase_train cname self"

text \<open>
  \<^verbatim>\<open>_dump_instance_to_yaml\<close> (lines 181-192). \<^verbatim>\<open>property_items\<close> is the comprehension of line
  184 over \<^verbatim>\<open>default_property\<close>: \<^verbatim>\<open>getattr(data, k)\<close> raises when the attribute is not there.
\<close>

fun property_items :: "pyobj \<Rightarrow> pydict \<Rightarrow> exn + pydict" where
  "property_items data [] = Inr []"
| "property_items data ((k, v) # rest) =
     (case map_of data k of
        None \<Rightarrow> Inl (AttributeError k)
      | Some x \<Rightarrow>
          (case property_items data rest of
             Inl e \<Rightarrow> Inl e
           | Inr p \<Rightarrow> Inr (if py_ne x v then (k, x) # p else p)))"

definition dump_instance_to_yaml :: "pyobj \<Rightarrow> exn + pydict" where
  "dump_instance_to_yaml data =
     (case property_items data default_property of
        Inl e \<Rightarrow> Inl e
      | Inr p \<Rightarrow>
          (case map_of data ''_init_kwargs_dict'' of
             None \<Rightarrow> Inl (AttributeError ''_init_kwargs_dict'')
           | Some (PDict a) \<Rightarrow>
               Inr ((if a \<noteq> [] then [(''parameter'', PDict a)] else [])
                    @ (if p \<noteq> [] then [(''property'', PDict p)] else []))
           | Some _ \<Rightarrow> Inl (AttributeError ''items'')))"

text \<open>
  \<^verbatim>\<open>_get_instance_from_yaml\<close> (lines 159-179). \<^verbatim>\<open>data\<close> is the mapping the YAML constructor
  builds from the node. With \<^verbatim>\<open>store_args_kwargs\<close> the entries
  \<^verbatim>\<open>args\<close> and \<^verbatim>\<open>kwargs\<close> are popped from the stored \<^verbatim>\<open>parameter\<close> mapping (which changes
  \<^verbatim>\<open>data\<close> too) and the constructor is called as \<^verbatim>\<open>cls(*a, **{**k, **p})\<close>, where \<^verbatim>\<open>a\<close> is
  a tuple or a list (other iterables are not modelled). The class attribute
  \<^verbatim>\<open>init_from_yaml\<close> is written and never read, and is left out.
\<close>

fun as_sequence :: "pyval \<Rightarrow> pyval list option" where
  "as_sequence (PTuple xs) = Some xs"
| "as_sequence (PList xs) = Some xs"
| "as_sequence _ = None"

definition construct_from_parameter :: "py_class \<Rightarrow> pydict \<Rightarrow> exn + pyobj \<times> pydict" where
  "construct_from_parameter cls data =
     (if store_args_kwargs cls then
        (case (case map_of data ''parameter'' of None \<Rightarrow> PDict [] | Some v \<Rightarrow> v) of
           PDict p \<Rightarrow>
             (let a = (case map_of p ''args'' of None \<Rightarrow> PTuple [] | Some v \<Rightarrow> v);
                  p1 = AList.delete ''args'' p;
                  k = (case map_of p1 ''kwargs'' of None \<Rightarrow> PDict [] | Some v \<Rightarrow> v);
                  p2 = AList.delete ''kwargs'' p1;
                  data' = (if map_of data ''parameter'' = None then data
                           else AList.update ''parameter'' (PDict p2) data)
              in case (as_sequence a, k) of
                   (Some a', PDict k') \<Rightarrow>
                     (case metaclass_call cls a' (dict_update k' p2) of
                        Inl e \<Rightarrow> Inl e
                      | Inr obj \<Rightarrow> Inr (obj, data'))
                 | _ \<Rightarrow> Inl TypeError)
         | _ \<Rightarrow> Inl TypeError)
      else
        (case (case map_of data ''parameter'' of None \<Rightarrow> PDict [] | Some v \<Rightarrow> v) of
           PDict p \<Rightarrow>
             (case metaclass_call cls [] p of
                Inl e \<Rightarrow> Inl e
              | Inr obj \<Rightarrow> Inr (obj, data))
         | _ \<Rightarrow> Inl TypeError))"

definition get_instance_from_yaml :: "py_class \<Rightarrow> pydict \<Rightarrow> exn + pyobj \<times> pydict" where
  "get_instance_from_yaml cls data =
     (case construct_from_parameter cls data of
        Inl e \<Rightarrow> Inl e
      | Inr (obj, data') \<Rightarrow>
          (case (case map_of data' ''property'' of None \<Rightarrow> PDict [] | Some v \<Rightarrow> v) of
             PDict props \<Rightarrow> Inr (fold (\<lambda>(k, v) obj. setattr obj k v) props obj, data')
           | _ \<Rightarrow> Inl (AttributeError ''items'')))"

text \<open>\<^verbatim>\<open>from_yaml\<close> (lines 155-157) keeps the object.\<close>

definition from_yaml :: "py_class \<Rightarrow> pydict \<Rightarrow> exn + pyobj" where
  "from_yaml cls data =
     (case get_instance_from_yaml cls data of Inl e \<Rightarrow> Inl e | Inr (obj, d) \<Rightarrow> Inr obj)"


section \<open>Word2VecEncoder\<close>

text \<open>
  How Python binds the arguments of a call to a signature of the shape
  \<^verbatim>\<open>(self, p1, ..., pn, *args, **kwargs)\<close>, the shape of both constructors: positional
  arguments fill the named parameters in order and the rest goes to \<^verbatim>\<open>*args\<close>; a keyword
  that names a parameter binds it, unless a positional argument did (\<^verbatim>\<open>TypeError\<close>); the
  other keywords go to \<^verbatim>\<open>**kwargs\<close>; a parameter left without a value takes its default,
  and it is a \<^verbatim>\<open>TypeError\<close> when it has none. The result is the bound parameters in the order
  of the signature, the extra positional arguments and the extra keywords.
\<close>

definition bind_arguments ::
  "pydict \<Rightarrow> pyval list \<Rightarrow> pydict \<Rightarrow> exn + pydict \<times> pyval list \<times> pydict" where
  "bind_arguments all_pars args kwargs =
     (let named = filter (\<lambda>(k, v). k \<notin> taboo) all_pars;
          names = map fst named;
          positional = zip names args;
          by_name = filter (\<lambda>(k, v). k \<in> set names) kwargs;
          given = map_of (positional @ by_name);
          bound = map (\<lambda>(k, d). (k, case given k of Some v \<Rightarrow> v | None \<Rightarrow> d)) named
      in if list_ex (\<lambda>(k, v). k \<in> fst ` set positional) by_name then Inl TypeError
         else if list_ex (\<lambda>(k, d). d = Empty \<and> given k = None) named then Inl TypeError
         else Inr (bound, drop (length names) args,
                   filter (\<lambda>(k, v). k \<notin> set names) kwargs))"

text \<open>The signature of \<^verbatim>\<open>Word2VecEncoder.__init__\<close> (lines 28-32).\<close>

definition Word2VecEncoder_parameters :: pydict where
  "Word2VecEncoder_parameters =
     [(''self'', Empty), (''model_dir'', Empty), (''skiprows'', PInt 1),
      (''batch_size'', PInt 64), (''dimension'', PInt 300),
      (''pooling_strategy'', PStr ''REDUCE_MEAN''), (''args'', Empty), (''kwargs'', Empty)]"

text \<open>
  Modelled from the spec: the base class \<^verbatim>\<open>BaseEncoder\<close> is imported from a module that is
  not part of the two files. The spec gives the trainable component as the single base of
  every pipeline stage, so \<^verbatim>\<open>BaseEncoder\<close> is taken to be a subclass of \<^verbatim>\<open>TrainableBase\<close>
  without a constructor of its own: in the body of \<^verbatim>\<open>Word2VecEncoder.__init__\<close> (lines
  33-39) \<^verbatim>\<open>super().__init__\<close> is the wrapped \<^verbatim>\<open>TrainableBase.__init__\<close>, and the metaclass
  wraps \<^verbatim>\<open>Word2VecEncoder.__init__\<close> too.
\<close>

definition Word2VecEncoder_init :: init_fun where
  "Word2VecEncoder_init cname flag self args kwargs =
     (case bind_arguments Word2VecEncoder_parameters args kwargs of
        Inl e \<Rightarrow> Inl e
      | Inr (bound, args', kwargs') \<Rightarrow>
          (case store_init_kwargs TrainableBase_parameters TrainableBase_init cname flag
                  self args' kwargs' of
             Inl e \<Rightarrow> Inl e
           | Inr self0 \<Rightarrow>
               (case map snd bound of
                  [model_dir, skiprows, batch_size, dimension, pooling_strategy] \<Rightarrow>
                    (let self1 = setattr self0 ''model_dir'' model_dir;
                         self2 = setattr self1 ''skiprows'' skiprows;
                         self3 = setattr self2 ''batch_size'' batch_size;
                         self4 = setattr self3 ''pooling_strategy'' pooling_strategy;
                         self5 = setattr self4 ''is_trained'' (PBool True);
                         self6 = setattr self5 ''dimension'' dimension
                     in Inr self6)
                | _ \<Rightarrow> Inl TypeError)))"

definition Word2VecEncoder :: py_class where
  "Word2VecEncoder =
     \<lparr>cls_name = ''Word2VecEncoder'', store_args_kwargs = False,
      parameters = Word2VecEncoder_parameters, init_func = Word2VecEncoder_init\<rparr>"

text \<open>
  \<^verbatim>\<open>line.strip().split(' ')\<close>: \<^verbatim>\<open>strip\<close> removes the white space at both ends. A
  character is a code point below 256; the white space of Python among these is 9 to 13,
  28 to 32, 133 and 160. \<^verbatim>\<open>split(' ')\<close> cuts at every single space, so two spaces in a row
  give an empty field and the result is never empty.
\<close>

definition is_space :: "char \<Rightarrow> bool" where
  "is_space c = (of_char c \<in> {9, 10, 11, 12, 13, 28, 29, 30, 31, 32, 133, 160 :: nat})"

definition strip :: "string \<Rightarrow> string" where
  "strip s = rev (dropWhile is_space (rev (dropWhile is_space s)))"

fun split_on :: "char \<Rightarrow> string \<Rightarrow> string list" where
  "split_on c [] = [[]]"
| "split_on c (x # xs) =
     (if x = c then [] # split_on c xs
      else (case split_on c xs of
              [] \<Rightarrow> [[x]]
            | w # ws \<Rightarrow> (x # w) # ws))"

definition fields :: "string \<Rightarrow> string list" where
  "fields line = split_on (CHR '' '') (strip line)"

text \<open>
  \<^verbatim>\<open>[float(i) for i in line[1:]]\<close>: \<^verbatim>\<open>float_of\<close> is Python's \<^verbatim>\<open>float\<close> on strings, \<^verbatim>\<open>None\<close>
  where it raises \<^verbatim>\<open>ValueError\<close>; the first field that does not parse ends the
  comprehension.
\<close>

fun floats :: "(string \<Rightarrow> real option) \<Rightarrow> string list \<Rightarrow> exn + real list" where
  "floats float_of [] = Inr []"
| "floats float_of (i # rest) =
     (case float_of i of
        None \<Rightarrow> Inl ValueError
      | Some x \<Rightarrow>
          (case floats float_of rest of
             Inl e \<Rightarrow> Inl e
           | Inr xs \<Rightarrow> Inr (x # xs)))"

text \<open>
  The loop of \<^verbatim>\<open>_post_init\<close> (lines 45-51) over the lines \<^verbatim>\<open>f.readlines()\<close> returns, with
  the counter \<^verbatim>\<open>count\<close> and the table \<^verbatim>\<open>word2vec_df\<close> as loop state.
\<close>

type_synonym vec_table = "(string \<times> real list) list"

fun load_rows ::
  "(string \<Rightarrow> real option) \<Rightarrow> int \<Rightarrow> int \<Rightarrow> int \<Rightarrow> vec_table \<Rightarrow> string list
     \<Rightarrow> exn + vec_table" where
  "load_rows float_of skiprows dimension count word2vec_df [] = Inr word2vec_df"
| "load_rows float_of skiprows dimension count word2vec_df (l # rest) =
     (let line = fields l
      in if count < skiprows
         then load_rows float_of skiprows dimension (count + 1) word2vec_df rest
         else if int (length line) > dimension
         then (case line of
                 [] \<Rightarrow> Inl IndexError
               | w # fs \<Rightarrow>
                   (case floats float_of fs of
                      Inl e \<Rightarrow> Inl e
                    | Inr v \<Rightarrow>
                        load_rows float_of skiprows dimension count
                          (AList.update w v word2vec_df) rest))
         else load_rows float_of skiprows dimension count word2vec_df rest)"

text \<open>
  \<^verbatim>\<open>_post_init\<close> (lines 41-53). \<^verbatim>\<open>lines\<close> is what \<^verbatim>\<open>f.readlines()\<close> gives for the file at
  \<^verbatim>\<open>self.model_dir\<close>. \<^verbatim>\<open>self.skiprows\<close> is read in the loop, so not at all for a file
  without lines; \<^verbatim>\<open>self.dimension\<close> is read in the loop and for \<^verbatim>\<open>np.zeros([d])\<close>. The
  comparisons of the loop take \<^verbatim>\<open>True\<close> and \<^verbatim>\<open>False\<close> for 1 and 0 (\<^verbatim>\<open>as_int\<close>); \<^verbatim>\<open>np.zeros\<close>
  wants an integer (\<^verbatim>\<open>TypeError\<close> for anything else, a boolean too) that is not negative
  (\<^verbatim>\<open>ValueError\<close>). The object a failing call leaves behind is not tracked.
\<close>

fun as_int :: "pyval \<Rightarrow> int option" where
  "as_int (PInt i) = Some i"
| "as_int (PBool b) = Some (if b then 1 else 0)"
| "as_int _ = None"

definition int_attr :: "pyobj \<Rightarrow> string \<Rightarrow> exn + int" where
  "int_attr self k =
     (case map_of self k of
        None \<Rightarrow> Inl (AttributeError k)
      | Some v \<Rightarrow> (case as_int v of None \<Rightarrow> Inl TypeError | Some i \<Rightarrow> Inr i))"

definition np_zeros :: "pyval \<Rightarrow> exn + pyval" where
  "np_zeros d =
     (case d of
        PInt n \<Rightarrow> (if n < 0 then Inl ValueError else Inr (NdArray (replicate (nat n) 0)))
      | _ \<Rightarrow> Inl TypeError)"

definition post_init :: "(string \<Rightarrow> real option) \<Rightarrow> string list \<Rightarrow> pyobj \<Rightarrow> exn + pyobj" where
  "post_init float_of lines self =
     (case (if lines = [] then Inr 0 else int_attr self ''skiprows'') of
        Inl e \<Rightarrow> Inl e
      | Inr skiprows \<Rightarrow>
          (case int_attr self ''dimension'' of
             Inl e \<Rightarrow> Inl e
           | Inr dimension \<Rightarrow>
               (case load_rows float_of skiprows dimension 0 [] lines of
                  Inl e \<Rightarrow> Inl e
                | Inr df \<Rightarrow>
                    (case np_zeros (case map_of self ''dimension'' of
                                      None \<Rightarrow> PNone | Some d \<Rightarrow> d) of
                       Inl e \<Rightarrow> Inl e
                     | Inr zeros \<Rightarrow>
                         Inr (setattr
                                (setattr self ''word2vec_df''
                                   (PDict (map (\<lambda>(k, v). (k, NdArray v)) df)))
                                ''empty'' zeros)))))"

text \<open>
  \<^verbatim>\<open>encode\<close> (lines 56-76). \<^verbatim>\<open>tokenize\<close> is \<^verbatim>\<open>cn_tokenizer.tokenize\<close>, a helper outside the two
  files. \<^verbatim>\<open>layer_data\<close> is the comprehension of line 68; it reads \<^verbatim>\<open>self.word2vec_df\<close> and
  \<^verbatim>\<open>self.empty\<close> once per token.

  \<^verbatim>\<open>np.mean(_pool, axis=0)\<close> (line 73) on a list of arrays of one length is their mean,
  coordinate by coordinate; on an empty list it is the scalar \<^verbatim>\<open>nan\<close> (NumPy warns and does
  not raise); arrays of different lengths do not make an array (\<^verbatim>\<open>ValueError\<close>). The same
  holds for \<^verbatim>\<open>np.array(pooled_data)\<close> in line 76. The timing and the \<^verbatim>\<open>info\<close> records of
  the method are left out.
\<close>

datatype pooled = Mean "real list" | NaN

fun as_array :: "pyval \<Rightarrow> real list option" where
  "as_array (NdArray v) = Some v"
| "as_array _ = None"

definition np_mean :: "pyval list \<Rightarrow> exn + pooled" where
  "np_mean pool =
     (case pool of
        [] \<Rightarrow> Inr NaN
      | x # xs \<Rightarrow>
          (case those (map as_array pool) of
             None \<Rightarrow> Inl TypeError
           | Some vs \<Rightarrow>
               (if list_all (\<lambda>v. length v = length (hd vs)) vs
                then Inr (Mean (map (\<lambda>i. sum_list (map (\<lambda>v. v ! i) vs) / real (length vs))
                                  [0..<length (hd vs)]))
                else Inl ValueError)))"

fun collect :: "('a \<Rightarrow> exn + 'b) \<Rightarrow> 'a list \<Rightarrow> exn + 'b list" where
  "collect f [] = Inr []"
| "collect f (x # xs) =
     (case f x of
        Inl e \<Rightarrow> Inl e
      | Inr y \<Rightarrow> (case collect f xs of Inl e \<Rightarrow> Inl e | Inr ys \<Rightarrow> Inr (y # ys)))"

fun layer_data :: "pyobj \<Rightarrow> string list \<Rightarrow> exn + pyval list" where
  "layer_data self [] = Inr []"
| "layer_data self (token # tokens) =
     (case map_of self ''word2vec_df'' of
        None \<Rightarrow> Inl (AttributeError ''word2vec_df'')
      | Some (PDict df) \<Rightarrow>
          (case map_of self ''empty'' of
             None \<Rightarrow> Inl (AttributeError ''empty'')
           | Some e \<Rightarrow>
               (case layer_data self tokens of
                  Inl x \<Rightarrow> Inl x
                | Inr vs \<Rightarrow> Inr ((case map_of df token of None \<Rightarrow> e | Some v \<Rightarrow> v) # vs)))
      | Some _ \<Rightarrow> Inl (AttributeError ''get''))"

definition pooled_data ::
  "(string \<Rightarrow> string list) \<Rightarrow> pyobj \<Rightarrow> string list \<Rightarrow> exn + pooled list" where
  "pooled_data tokenize self text =
     (case map_of self ''logger'' of
        None \<Rightarrow> Inl (AttributeError ''logger'')
      | Some (Logger n v) \<Rightarrow>
          (case collect (layer_data self) (map tokenize text) of
             Inl e \<Rightarrow> Inl e
           | Inr layers \<Rightarrow> collect np_mean layers)
      | Some _ \<Rightarrow> Inl (AttributeError ''info''))"

fun shape :: "pooled \<Rightarrow> nat option" where
  "shape NaN = None"
| "shape (Mean v) = Some (length v)"

definition np_array :: "pooled list \<Rightarrow> exn + pooled list" where
  "np_array pd =
     (if list_all (\<lambda>p. shape p = shape (hd pd)) pd then Inr pd else Inl ValueError)"

text \<open>
  Line 76 ends in \<^verbatim>\<open>.astye(np.float32)\<close>: an array has no attribute \<^verbatim>\<open>astye\<close> (the method is
  \<^verbatim>\<open>astype\<close>), so the attribute lookup raises \<^verbatim>\<open>AttributeError\<close> whenever it is reached.
\<close>

definition encode ::
  "(string \<Rightarrow> string list) \<Rightarrow> pyobj \<Rightarrow> string list \<Rightarrow> exn + real list list" where
  "encode tokenize self text =
     (case pooled_data tokenize self text of
        Inl e \<Rightarrow> Inl e
      | Inr pd \<Rightarrow>
          (case np_array pd of
             Inl e \<Rightarrow> Inl e
           | Inr arr \<Rightarrow> Inl (AttributeError ''astye'')))"



text \<open>One step of the loop over \<^verbatim>\<open>kwargs\<close> in lines 67-69.\<close>

definition kw_step :: "string \<times> pyval \<Rightarrow> pydict \<Rightarrow> pydict" where
  "kw_step = (\<lambda>(k, v) tmp. if k \<in> fst ` set tmp then AList.update k v tmp else tmp)"

section \<open>Observations and example objects\<close>

text \<open>An attribute of the object a call returns; nothing when the call raises.\<close>

definition attr_of :: "exn + pyobj \<Rightarrow> string \<Rightarrow> pyval option" where
  "attr_of r k = (case r of Inl e \<Rightarrow> None | Inr obj \<Rightarrow> map_of obj k)"

text \<open>The object \<^verbatim>\<open>TrainableBase()\<close> and the object \<^verbatim>\<open>Word2VecEncoder('m')\<close>.\<close>

definition new_TrainableBase :: pyobj where
  "new_TrainableBase =
     [(''_init_kwargs_dict'', PDict []), (''is_trained'', PBool False),
      (''verbose'', PBool False), (''logger'', Logger ''TrainableBase'' (PBool False)),
      (''memcached'', MemoryCache ''.nes_cache''), (''batch_size'', PNone)]"

definition default_config :: pydict where
  "default_config =
     [(''model_dir'', PStr ''m''), (''skiprows'', PInt 1), (''batch_size'', PInt 64),
      (''dimension'', PInt 300), (''pooling_strategy'', PStr ''REDUCE_MEAN'')]"

definition new_Word2VecEncoder :: pyobj where
  "new_Word2VecEncoder =
     [(''_init_kwargs_dict'', PDict default_config), (''is_trained'', PBool True),
      (''verbose'', PBool False), (''logger'', Logger ''Word2VecEncoder'' (PBool False)),
      (''memcached'', MemoryCache ''.nes_cache''), (''model_dir'', PStr ''m''),
      (''skiprows'', PInt 1), (''batch_size'', PInt 64),
      (''pooling_strategy'', PStr ''REDUCE_MEAN''), (''dimension'', PInt 300)]"

text \<open>A \<^verbatim>\<open>train\<close> body that raises, for the examples.\<close>

definition raising_train :: "pyobj \<Rightarrow> (exn + pyval) \<times> pyobj" where
  "raising_train self = (Inl ValueError, self)"

text \<open>
  The rows the table is built from, in the words of the spec: the lines after the header
  rows, cut into fields, that have at least \<^verbatim>\<open>dimension + 1\<close> fields. \<^verbatim>\<open>store_rows\<close> is the
  loop of \<^verbatim>\<open>_post_init\<close> once the header is passed, on these rows.
\<close>

definition retained_rows :: "int \<Rightarrow> int \<Rightarrow> string list \<Rightarrow> string list list" where
  "retained_rows skiprows dimension lines =
     filter (\<lambda>row. int (length row) \<ge> dimension + 1) (map fields (drop (nat skiprows) lines))"

fun store_rows ::
  "(string \<Rightarrow> real option) \<Rightarrow> vec_table \<Rightarrow> string list list \<Rightarrow> exn + vec_table" where
  "store_rows float_of df [] = Inr df"
| "store_rows float_of df (row # rows) =
     (case row of
        [] \<Rightarrow> Inl IndexError
      | w # fs \<Rightarrow>
          (case floats float_of fs of
             Inl e \<Rightarrow> Inl e
           | Inr v \<Rightarrow> store_rows float_of (AList.update w v df) rows))"

text \<open>
  For the examples: Python's \<^verbatim>\<open>float\<close> on unsigned decimal integers (the examples have no
  other field), and a tokenizer that cuts at spaces, in the place of \<^verbatim>\<open>cn_tokenizer\<close>.
\<close>

definition float_of_digits :: "string \<Rightarrow> real option" where
  "float_of_digits s =
     (if s \<noteq> [] \<and> list_all (\<lambda>c. 48 \<le> (of_char c :: nat) \<and> (of_char c :: nat) \<le> 57) s
      then Some (real (foldl (\<lambda>n c. 10 * n + (of_char c - 48)) 0 s))
      else None)"

definition space_tokenizer :: "string \<Rightarrow> string list" where
  "space_tokenizer s = filter (\<lambda>w. w \<noteq> []) (split_on (CHR '' '') s)"

text \<open>
  The object \<^verbatim>\<open>Word2VecEncoder('m', dimension=2)\<close>, a vector file of two rows after its
  header, the encoder after \<^verbatim>\<open>_post_init\<close> on that file, and a file with a long row and
  a repeated token.
\<close>

definition new_encoder2 :: pyobj where
  "new_encoder2 =
     [(''_init_kwargs_dict'',
       PDict [(''model_dir'', PStr ''m''), (''skiprows'', PInt 1), (''batch_size'', PInt 64),
              (''dimension'', PInt 2), (''pooling_strategy'', PStr ''REDUCE_MEAN'')]),
      (''is_trained'', PBool True),
      (''verbose'', PBool False), (''logger'', Logger ''Word2VecEncoder'' (PBool False)),
      (''memcached'', MemoryCache ''.nes_cache''), (''model_dir'', PStr ''m''),
      (''skiprows'', PInt 1), (''batch_size'', PInt 64),
      (''pooling_strategy'', PStr ''REDUCE_MEAN''), (''dimension'', PInt 2)]"

definition example_lines :: "string list" where
  "example_lines = [''2 2'', ''a 1 0'', ''b 3 0'']"

definition example_encoder :: pyobj where
  "example_encoder =
     new_encoder2 @
     [(''word2vec_df'', PDict [(''a'', NdArray [1, 0]), (''b'', NdArray [3, 0])]),
      (''empty'', NdArray [0, 0])]"

definition ragged_lines :: "string list" where
  "ragged_lines = [''2 2'', ''a 1 2 3'', ''b 4 5'', ''b 6 7'']"


section \<open>Structured serialization, composed\<close>

text \<open>
  What a value is after it has been written as YAML text by \<^verbatim>\<open>yaml.dump\<close> and read back
  by \<^verbatim>\<open>yaml.load\<close> (the \<^verbatim>\<open>yaml\<close> object comes from the helper module, a ruamel YAML
  instance): \<^verbatim>\<open>None\<close>, booleans, integers and strings come back as they are, lists and
  mappings with their entries read back, a tuple as a list; a logging or cache handle, an
  array and \<^verbatim>\<open>inspect.Parameter.empty\<close> have no representer.
\<close>

fun yaml_data :: "pyval \<Rightarrow> exn + pyval"
  and yaml_list :: "pyval list \<Rightarrow> exn + pyval list"
  and yaml_items :: "pydict \<Rightarrow> exn + pydict" where
  "yaml_data PNone = Inr PNone"
| "yaml_data (PBool b) = Inr (PBool b)"
| "yaml_data (PInt i) = Inr (PInt i)"
| "yaml_data (PStr s) = Inr (PStr s)"
| "yaml_data (PTuple xs) = (case yaml_list xs of Inl e \<Rightarrow> Inl e | Inr ys \<Rightarrow> Inr (PList ys))"
| "yaml_data (PList xs) = (case yaml_list xs of Inl e \<Rightarrow> Inl e | Inr ys \<Rightarrow> Inr (PList ys))"
| "yaml_data (PDict d) = (case yaml_items d of Inl e \<Rightarrow> Inl e | Inr d' \<Rightarrow> Inr (PDict d'))"
| "yaml_data Empty = Inl RepresenterError"
| "yaml_data (Logger n v) = Inl RepresenterError"
| "yaml_data (MemoryCache p) = Inl RepresenterError"
| "yaml_data (NdArray v) = Inl RepresenterError"
| "yaml_list [] = Inr []"
| "yaml_list (x # xs) =
     (case yaml_data x of
        Inl e \<Rightarrow> Inl e
      | Inr y \<Rightarrow> (case yaml_list xs of Inl e \<Rightarrow> Inl e | Inr ys \<Rightarrow> Inr (y # ys)))"
| "yaml_items [] = Inr []"
| "yaml_items ((k, v) # d) =
     (case yaml_data v of
        Inl e \<Rightarrow> Inl e
      | Inr y \<Rightarrow> (case yaml_items d of Inl e \<Rightarrow> Inl e | Inr d' \<Rightarrow> Inr ((k, y) # d')))"

text \<open>
  Plain data, the supported parameter types: \<^verbatim>\<open>None\<close>, booleans, integers, strings, and
  lists and mappings of plain data.
\<close>

fun plain :: "pyval \<Rightarrow> bool"
  and plain_list :: "pyval list \<Rightarrow> bool"
  and plain_items :: "pydict \<Rightarrow> bool" where
  "plain PNone = True"
| "plain (PBool b) = True"
| "plain (PInt i) = True"
| "plain (PStr s) = True"
| "plain (PList xs) = plain_list xs"
| "plain (PDict d) = plain_items d"
| "plain (PTuple xs) = False"
| "plain Empty = False"
| "plain (Logger n v) = False"
| "plain (MemoryCache p) = False"
| "plain (NdArray v) = False"
| "plain_list [] = True"
| "plain_list (x # xs) = (plain x \<and> plain_list xs)"
| "plain_items [] = True"
| "plain_items ((k, v) # d) = (plain v \<and> plain_items d)"

text \<open>
  \<^verbatim>\<open>load_structured(dump_structured(c))\<close> for a component of class \<^verbatim>\<open>cls\<close>: the mapping of
  \<^verbatim>\<open>_dump_instance_to_yaml\<close> goes through YAML text and \<^verbatim>\<open>from_yaml\<close> builds the object from
  what is read. Below it, the round trip done twice, and the non-default whitelist
  properties of a component (line 184). \<^verbatim>\<open>then_do\<close> continues after a call that did not
  raise.
\<close>

definition structured_round_trip :: "py_class \<Rightarrow> pyobj \<Rightarrow> exn + pyobj" where
  "structured_round_trip cls c =
     (case dump_instance_to_yaml c of
        Inl e \<Rightarrow> Inl e
      | Inr y \<Rightarrow> (case yaml_items y of Inl e \<Rightarrow> Inl e | Inr y' \<Rightarrow> from_yaml cls y'))"

definition round_trip_twice :: "py_class \<Rightarrow> pyobj \<Rightarrow> exn + pyobj" where
  "round_trip_twice cls c =
     (case structured_round_trip cls c of
        Inl e \<Rightarrow> Inl e
      | Inr c1 \<Rightarrow> structured_round_trip cls c1)"

definition then_do :: "exn + 'a \<Rightarrow> ('a \<Rightarrow> exn + 'b) \<Rightarrow> exn + 'b" where
  "then_do r f = (case r of Inl e \<Rightarrow> Inl e | Inr x \<Rightarrow> f x)"

definition non_default_property :: "pyobj \<Rightarrow> exn + pydict" where
  "non_default_property c = property_items c default_property"

text \<open>
  The entries of line 184 for a component whose trained flag is \<^verbatim>\<open>t\<close> and whose batch size is
  \<^verbatim>\<open>b\<close>, and the mapping that lines 187-191 build from a configuration and those entries.
\<close>

definition override_items :: "pyval \<Rightarrow> pyval \<Rightarrow> pydict" where
  "override_items t b =
     (if py_ne t (PBool False) then [(''is_trained'', t)] else [])
     @ (if py_ne b PNone then [(''batch_size'', b)] else [])"

definition document :: "pydict \<Rightarrow> pydict \<Rightarrow> pydict" where
  "document a p =
     (if a \<noteq> [] then [(''parameter'', PDict a)] else [])
     @ (if p \<noteq> [] then [(''property'', PDict p)] else [])"



text \<open>
  Two conditions on the body of the constructor of \<^verbatim>\<open>cls\<close>, which runs after the wrapper has
  recorded the configuration on the new object. \<^verbatim>\<open>keeps_config\<close>: the body leaves the
  recorded configuration as it is. \<^verbatim>\<open>leaves_out\<close>: the body does not bring the name \<^verbatim>\<open>k\<close>
  into a configuration that lacks it. A body fails them when it reaches, through
  \<^verbatim>\<open>super().__init__\<close>, a parent constructor with named parameters, whose own wrapper merges
  its parameters into the configuration (lines 75-76). The two classes of the source meet
  both.
\<close>

definition keeps_config :: "py_class \<Rightarrow> bool" where
  "keeps_config cls \<longleftrightarrow>
     (\<forall>tmp a kw s.
        init_func cls (cls_name cls) (store_args_kwargs cls)
          [(''_init_kwargs_dict'', PDict tmp)] a kw = Inr s \<longrightarrow>
        map_of s ''_init_kwargs_dict'' = Some (PDict tmp))"

definition leaves_out :: "py_class \<Rightarrow> string \<Rightarrow> bool" where
  "leaves_out cls k \<longleftrightarrow>
     (\<forall>tmp a kw s.
        map_of tmp k = None \<longrightarrow>
        init_func cls (cls_name cls) (store_args_kwargs cls)
          [(''_init_kwargs_dict'', PDict tmp)] a kw = Inr s \<longrightarrow>
        (\<exists>cfg. map_of s ''_init_kwargs_dict'' = Some (PDict cfg) \<and> map_of cfg k = None))"

text \<open>
  Classes for the examples. A subclass of the encoder that only sets
  \<^verbatim>\<open>store_args_kwargs = True\<close>, and the same for \<^verbatim>\<open>TrainableBase\<close>; the object
  \<^verbatim>\<open>Word2VecEncoder('m', verbose=True)\<close>; and three subclasses whose constructors pass their
  remaining arguments on:
  \<^verbatim>\<open>
  class Foo(TrainableBase):
      def __init__(self, a=1, *args, **kwargs):
          super().__init__(*args, **kwargs)

  class Bar(Foo):
      def __init__(self, b=3, *args, **kwargs):
          super().__init__(*args, **kwargs)

  class Baz(Foo):
      def __init__(self, a=0, *args, **kwargs):
          super().__init__(a + 1, *args, **kwargs)
  \<close>
  \<^verbatim>\<open>forwarding_init\<close> is such a constructor: it binds its own parameters and calls the wrapped
  constructor of the parent with the values \<^verbatim>\<open>first\<close> computes from them, followed by the
  remaining arguments.
\<close>

definition raw_Word2VecEncoder :: py_class where
  "raw_Word2VecEncoder = Word2VecEncoder\<lparr>store_args_kwargs := True\<rparr>"

definition raw_TrainableBase :: py_class where
  "raw_TrainableBase = TrainableBase\<lparr>store_args_kwargs := True\<rparr>"

definition verbose_Word2VecEncoder :: pyobj where
  "verbose_Word2VecEncoder =
     [(''_init_kwargs_dict'', PDict default_config), (''is_trained'', PBool True),
      (''verbose'', PBool True), (''logger'', Logger ''Word2VecEncoder'' (PBool True)),
      (''memcached'', MemoryCache ''.nes_cache''), (''model_dir'', PStr ''m''),
      (''skiprows'', PInt 1), (''batch_size'', PInt 64),
      (''pooling_strategy'', PStr ''REDUCE_MEAN''), (''dimension'', PInt 300)]"


definition forwarding_init ::
  "pydict \<Rightarrow> (pydict \<Rightarrow> exn + pyval list) \<Rightarrow> pydict \<Rightarrow> init_fun \<Rightarrow> init_fun" where
  "forwarding_init own_pars first parent_pars parent_func cname flag self args kwargs =
     (case bind_arguments own_pars args kwargs of
        Inl e \<Rightarrow> Inl e
      | Inr (bound, args', kwargs') \<Rightarrow>
          (case first bound of
             Inl e \<Rightarrow> Inl e
           | Inr vs \<Rightarrow>
               store_init_kwargs parent_pars parent_func cname flag self (vs @ args') kwargs'))"

definition nothing_first :: "pydict \<Rightarrow> exn + pyval list" where
  "nothing_first bound = Inr []"

definition a_plus_1 :: "pydict \<Rightarrow> exn + pyval list" where
  "a_plus_1 bound =
     (case map_of bound ''a'' of
        None \<Rightarrow> Inl TypeError
      | Some v \<Rightarrow> (case as_int v of None \<Rightarrow> Inl TypeError | Some i \<Rightarrow> Inr [PInt (i + 1)]))"

definition Foo_parameters :: pydict where
  "Foo_parameters = [(''self'', Empty), (''a'', PInt 1), (''args'', Empty), (''kwargs'', Empty)]"

definition Foo_init :: init_fun where
  "Foo_init =
     forwarding_init Foo_parameters nothing_first TrainableBase_parameters TrainableBase_init"

definition Bar_parameters :: pydict where
  "Bar_parameters = [(''self'', Empty), (''b'', PInt 3), (''args'', Empty), (''kwargs'', Empty)]"

definition Bar :: py_class where
  "Bar =
     \<lparr>cls_name = ''Bar'', store_args_kwargs = False, parameters = Bar_parameters,
      init_func = forwarding_init Bar_parameters nothing_first Foo_parameters Foo_init\<rparr>"

definition Baz_parameters :: pydict where
  "Baz_parameters = [(''self'', Empty), (''a'', PInt 0), (''args'', Empty), (''kwargs'', Empty)]"

definition Baz :: py_class where
  "Baz =
     \<lparr>cls_name = ''Baz'', store_args_kwargs = False, parameters = Baz_parameters,
      init_func = forwarding_init Baz_parameters a_plus_1 Foo_parameters Foo_init\<rparr>"

section \<open>Association lists as dictionaries\<close>

lemma map_of_setattr: "map_of (setattr obj k v) = (map_of obj)(k \<mapsto> v)"
  by (simp add: setattr_def update_conv')

lemma setattr_twice: "setattr (setattr s k v) k v' = setattr s k v'"
  by (simp add: setattr_def)


lemma keys_kw_step: "map fst (kw_step kv t) = map fst t"
  by (cases kv) (auto simp: kw_step_def update_keys)

lemma keys_fold_kw: "map fst (fold kw_step kw t) = map fst t"
  by (induction kw arbitrary: t) (simp_all add: keys_kw_step)


lemma keys_fold_zip:
  "set ks \<subseteq> set (map fst t) \<Longrightarrow>
   map fst (fold (\<lambda>(k, v) tmp. AList.update k v tmp) (zip ks vs) t) = map fst t"
proof (induction ks arbitrary: vs t)
  case Nil
  then show ?case by simp
next
  case (Cons k ks)
  show ?case
  proof (cases vs)
    case Nil
    then show ?thesis by simp
  next
    case (Cons v vs')
    have "map fst (AList.update k v t) = map fst t"
      using Cons.prems by (simp add: update_keys)
    with Cons.IH[of "AList.update k v t" vs'] Cons.prems Cons show ?thesis by simp
  qed
qed

section \<open>The captured constructor configuration\<close>

lemma filter_taboo_keys:
  "map fst (filter (\<lambda>(k, v). k \<notin> taboo) all_pars) = filter (\<lambda>k. k \<notin> taboo) (map fst all_pars)"
  by (induction all_pars) auto

lemma captured_kwargs_keys:
  "map fst (captured_kwargs all_pars False args kwargs) =
     filter (\<lambda>k. k \<notin> taboo) (map fst all_pars)"
proof -
  have z: "map fst (fold (\<lambda>(k, v) tmp. AList.update k v tmp)
                 (zip (filter (\<lambda>k. k \<notin> taboo) (map fst all_pars)) args)
                 (filter (\<lambda>(k, v). k \<notin> taboo) all_pars))
           = map fst (filter (\<lambda>(k, v). k \<notin> taboo) all_pars)"
    by (rule keys_fold_zip) (simp add: filter_taboo_keys)
  have "captured_kwargs all_pars False args kwargs =
          fold kw_step kwargs (fold (\<lambda>(k, v) tmp. AList.update k v tmp)
                 (zip (filter (\<lambda>k. k \<notin> taboo) (map fst all_pars)) args)
                 (filter (\<lambda>(k, v). k \<notin> taboo) all_pars))"
    by (simp add: captured_kwargs_def kw_step_def)
  then show ?thesis by (simp add: keys_fold_kw z filter_taboo_keys)
qed


section \<open>The requires-trained guard\<close>

text \<open>
  C6: for every operation wrapped by \<^verbatim>\<open>_train_required\<close>, on a component whose
  \<^verbatim>\<open>is_trained\<close> is false the call raises \<^verbatim>\<open>RuntimeError\<close> with the message "training is
  required before calling ..." whatever the wrapped operation is, and returns the object
  as it was (the operation is not run); on a component whose \<^verbatim>\<open>is_trained\<close> is true the
  call is the wrapped operation. So, for an operation that does not raise that very error
  itself, the call raises it if and only if the component is untrained.
\<close>

theorem train_required_guard:
  assumes "map_of self ''is_trained'' = Some t"
  shows "(\<not> truthy t \<longrightarrow>
            train_required fname func self =
              (Inl (RuntimeError (training_is_required fname)), self))
       \<and> (truthy t \<longrightarrow> train_required fname func self = func self)
       \<and> (fst (func self) \<noteq> Inl (RuntimeError (training_is_required fname)) \<longrightarrow>
            (fst (train_required fname func self) =
               Inl (RuntimeError (training_is_required fname)) \<longleftrightarrow> \<not> truthy t))"
  using assms by (simp add: train_required_def)

theorem train_required_guard_witness:
  "train_required ''encode'' TrainableBase_train [(''is_trained'', PBool False)] =
     (Inl (RuntimeError (training_is_required ''encode'')), [(''is_trained'', PBool False)])
   \<and> train_required ''encode'' TrainableBase_train [(''is_trained'', PBool True)] =
       (Inr PNone, [(''is_trained'', PBool True)])"
proof -
  have u: "map_of [(''is_trained'', PBool False)] ''is_trained'' = Some (PBool False)" by simp
  have t: "map_of [(''is_trained'', PBool True)] ''is_trained'' = Some (PBool True)" by simp
  from train_required_guard[OF u, of "''encode''" TrainableBase_train]
    train_required_guard[OF t, of "''encode''" TrainableBase_train]
  show ?thesis
    by (simp add: TrainableBase_train_def)
qed

section \<open>Construction\<close>

lemma store_init_kwargs_fresh:
  "store_init_kwargs pars func cname False [] args kwargs =
     func cname False [(''_init_kwargs_dict'', PDict (captured_kwargs pars False args kwargs))]
       args kwargs"
  by (simp add: store_init_kwargs_def self_store_args_kwargs_def setattr_def)

lemma captured_kwargs_TrainableBase:
  "captured_kwargs TrainableBase_parameters False args kwargs = []"
proof -
  have "map fst (captured_kwargs TrainableBase_parameters False args kwargs) = []"
    unfolding captured_kwargs_keys by (simp add: TrainableBase_parameters_def taboo_def)
  then show ?thesis by simp
qed

lemma dict_update_Nil: "dict_update d [] = d"
  by (simp add: dict_update_def)

lemma store_init_kwargs_super:
  "store_init_kwargs TrainableBase_parameters TrainableBase_init cname False
      [(''_init_kwargs_dict'', PDict tmp)] args kwargs =
   TrainableBase_init cname False [(''_init_kwargs_dict'', PDict tmp)] args kwargs"
  by (simp add: store_init_kwargs_def self_store_args_kwargs_def setattr_def
      captured_kwargs_TrainableBase dict_update_Nil)

lemma map_of_defaults:
  "map_of (fold (\<lambda>(k, v) obj. if \<not> hasattr obj k then setattr obj k v else obj)
             default_property obj) k =
     (case map_of obj k of Some v \<Rightarrow> Some v | None \<Rightarrow> map_of default_property k)"
  by (auto simp: default_property_def hasattr_def map_of_setattr split: option.splits)

lemma metaclass_call_TrainableBase:
  "map_of kwargs ''self'' = None \<Longrightarrow> map_of kwargs ''cls'' = None \<Longrightarrow>
   metaclass_call TrainableBase args kwargs =
     Inr [(''_init_kwargs_dict'', PDict []), (''is_trained'', PBool False),
          (''verbose'', case map_of kwargs ''verbose'' of None \<Rightarrow> PBool False | Some v \<Rightarrow> v),
          (''logger'', Logger ''TrainableBase''
             (case map_of kwargs ''verbose'' of None \<Rightarrow> PBool False | Some v \<Rightarrow> v)),
          (''memcached'', MemoryCache ''.nes_cache''), (''batch_size'', PNone)]"
  by (simp add: metaclass_call_def cls_init_def TrainableBase_def store_init_kwargs_fresh
      captured_kwargs_TrainableBase TrainableBase_init_def setattr_def default_property_def
      Let_def hasattr_def)

lemma metaclass_call_TypeError:
  "map_of kwargs ''self'' \<noteq> None \<or> map_of kwargs ''cls'' \<noteq> None \<Longrightarrow>
   metaclass_call cls args kwargs = Inl TypeError"
  by (auto simp: metaclass_call_def cls_init_def)

lemma new_TrainableBase: "metaclass_call TrainableBase [] [] = Inr new_TrainableBase"
  by (simp add: metaclass_call_TrainableBase new_TrainableBase_def)

lemma new_Word2VecEncoder:
  "metaclass_call Word2VecEncoder [PStr ''m''] [] = Inr new_Word2VecEncoder"
  by (simp add: metaclass_call_def cls_init_def Word2VecEncoder_def store_init_kwargs_fresh
      Word2VecEncoder_init_def bind_arguments_def Word2VecEncoder_parameters_def taboo_def
      store_init_kwargs_super TrainableBase_init_def Let_def setattr_def
      default_property_def hasattr_def new_Word2VecEncoder_def default_config_def
      captured_kwargs_def)

lemma Word2VecEncoder_init_attrs:
  assumes "Word2VecEncoder_init cname False [(''_init_kwargs_dict'', PDict tmp)] args kwargs
           = Inr s"
  shows "map_of s ''_init_kwargs_dict'' = Some (PDict tmp)"
    and "map_of s ''is_trained'' = Some (PBool True)"
    and "\<exists>b. map_of s ''batch_size'' = Some b"
  using assms
  by (auto simp: Word2VecEncoder_init_def store_init_kwargs_super TrainableBase_init_def
      map_of_setattr Let_def split: sum.splits prod.splits list.splits)

lemma metaclass_call_Word2VecEncoder_trained:
  assumes "metaclass_call Word2VecEncoder args kwargs = Inr obj"
  shows "map_of obj ''is_trained'' = Some (PBool True)"
proof -
  from assms obtain s where
    s: "Word2VecEncoder_init ''Word2VecEncoder'' False
          [(''_init_kwargs_dict'',
            PDict (captured_kwargs Word2VecEncoder_parameters False args kwargs))] args kwargs
        = Inr s"
    and obj: "obj = fold (\<lambda>(k, v) obj. if \<not> hasattr obj k then setattr obj k v else obj)
                      default_property s"
    by (auto simp: metaclass_call_def cls_init_def Word2VecEncoder_def store_init_kwargs_fresh
        split: if_splits sum.splits)
  from Word2VecEncoder_init_attrs(2)[OF s] obj show ?thesis
    by (simp add: map_of_defaults)
qed

section \<open>The trained state\<close>

text \<open>
  C7, as the code has it: the trained flag is false right after the construction of a
  \<^verbatim>\<open>TrainableBase\<close> (every call builds one, but for a call with a keyword named \<^verbatim>\<open>self\<close> or
  \<^verbatim>\<open>cls\<close>, which raises), and true right after the construction of a \<^verbatim>\<open>Word2VecEncoder\<close>,
  whose constructor assigns it. A call of the wrapped \<^verbatim>\<open>train\<close> sets the flag true when the body
  of \<^verbatim>\<open>train\<close> returns, and leaves the object as the body left it when the body raises.
\<close>

theorem trained_flag_lifecycle:
  "attr_of (metaclass_call TrainableBase args kwargs) ''is_trained'' =
     (if map_of kwargs ''self'' = None \<and> map_of kwargs ''cls'' = None then Some (PBool False)
      else None)
   \<and> (metaclass_call Word2VecEncoder args kwargs = Inr obj \<longrightarrow>
        map_of obj ''is_trained'' = Some (PBool True))
   \<and> (map_of self ''is_trained'' = Some t \<longrightarrow>
        (truthy t \<longrightarrow> map_of self ''logger'' = Some (Logger n v)) \<longrightarrow>
        (func self = (Inr r, s') \<longrightarrow>
           snd (as_train_func func cname self) = (Inr r, setattr s' ''is_trained'' (PBool True)))
        \<and> (func self = (Inl e, s') \<longrightarrow>
           snd (as_train_func func cname self) = (Inl e, s')))"
proof (intro conjI impI)
  show "attr_of (metaclass_call TrainableBase args kwargs) ''is_trained'' =
     (if map_of kwargs ''self'' = None \<and> map_of kwargs ''cls'' = None then Some (PBool False)
      else None)"
  proof (cases "map_of kwargs ''self'' = None \<and> map_of kwargs ''cls'' = None")
    case True
    then show ?thesis by (simp add: metaclass_call_TrainableBase attr_of_def)
  next
    case False
    then have "metaclass_call TrainableBase args kwargs = Inl TypeError"
      using metaclass_call_TypeError[of kwargs TrainableBase args] by blast
    with False show ?thesis by (simp add: attr_of_def)
  qed
next
  assume "metaclass_call Word2VecEncoder args kwargs = Inr obj"
  then show "map_of obj ''is_trained'' = Some (PBool True)"
    by (rule metaclass_call_Word2VecEncoder_trained)
next
  assume "map_of self ''is_trained'' = Some t"
    and "truthy t \<longrightarrow> map_of self ''logger'' = Some (Logger n v)"
    and "func self = (Inr r, s')"
  then show "snd (as_train_func func cname self)
             = (Inr r, setattr s' ''is_trained'' (PBool True))"
    by (simp add: as_train_func_def)
next
  assume "map_of self ''is_trained'' = Some t"
    and "truthy t \<longrightarrow> map_of self ''logger'' = Some (Logger n v)"
    and "func self = (Inl e, s')"
  then show "snd (as_train_func func cname self) = (Inl e, s')"
    by (simp add: as_train_func_def)
qed

theorem trained_flag_lifecycle_witness:
  "attr_of (metaclass_call TrainableBase [] []) ''is_trained'' = Some (PBool False)
   \<and> attr_of (metaclass_call Word2VecEncoder [PStr ''m''] []) ''is_trained'' = Some (PBool True)
   \<and> snd (as_train_func TrainableBase_train ''TrainableBase'' [(''is_trained'', PBool False)]) =
       (Inr PNone, [(''is_trained'', PBool True)])
   \<and> snd (as_train_func raising_train ''TrainableBase'' [(''is_trained'', PBool False)]) =
       (Inl ValueError, [(''is_trained'', PBool False)])"
proof -
  note o = new_Word2VecEncoder
  have a: "map_of [(''is_trained'', PBool False)] ''is_trained'' = Some (PBool False)" by simp
  have f1: "TrainableBase_train [(''is_trained'', PBool False)] =
              (Inr PNone, [(''is_trained'', PBool False)])"
    by (simp add: TrainableBase_train_def)
  have f2: "raising_train [(''is_trained'', PBool False)] =
              (Inl ValueError, [(''is_trained'', PBool False)])"
    by (simp add: raising_train_def)
  from trained_flag_lifecycle[where kwargs="[]" and args="[PStr ''m'']"
      and obj=new_Word2VecEncoder
      and self="[(''is_trained'', PBool False)]" and t="PBool False"
      and func=TrainableBase_train and r=PNone and s'="[(''is_trained'', PBool False)]"
      and cname="''TrainableBase''"] o a f1
    trained_flag_lifecycle[where kwargs="[]" and args="[]"
      and self="[(''is_trained'', PBool False)]" and t="PBool False"
      and func=raising_train and e=ValueError and s'="[(''is_trained'', PBool False)]"
      and cname="''TrainableBase''"] a f2
  show ?thesis
    by (simp add: attr_of_def setattr_def)
qed

text \<open>
  C7 as stated fails: the constructor of the encoder sets \<^verbatim>\<open>is_trained = True\<close> (line 38),
  so the flag of \<^verbatim>\<open>Word2VecEncoder('m')\<close> is true before any call of \<^verbatim>\<open>train\<close>.
\<close>

theorem trained_at_construction_counterexample:
  "attr_of (metaclass_call Word2VecEncoder [PStr ''m''] []) ''is_trained'' = Some (PBool True)"
  by (simp add: new_Word2VecEncoder attr_of_def new_Word2VecEncoder_def)

text \<open>
  C8: on a component that has its logging handle, two calls of \<^verbatim>\<open>train\<close> in a row both
  return, the second one, made on a trained component, logs the warning that the previous
  training is overridden, and the component is trained afterwards. This holds for the
  \<^verbatim>\<open>train\<close> of the base class, and for every \<^verbatim>\<open>train\<close> body that returns both times and keeps
  the logging handle.
\<close>

theorem train_twice:
  assumes "map_of self ''is_trained'' = Some t"
    and "map_of self ''logger'' = Some (Logger n v)"
  shows "(func self = (Inr r1, s1) \<longrightarrow> map_of s1 ''logger'' = Some (Logger n' v') \<longrightarrow>
          func (setattr s1 ''is_trained'' (PBool True)) = (Inr r2, s2) \<longrightarrow>
            as_train_func func cname self =
              (if truthy t then [LogWarning (trained_already cname)] else [], Inr r1,
               setattr s1 ''is_trained'' (PBool True))
            \<and> as_train_func func cname (setattr s1 ''is_trained'' (PBool True)) =
              ([LogWarning (trained_already cname)], Inr r2,
               setattr s2 ''is_trained'' (PBool True))
            \<and> map_of (setattr s2 ''is_trained'' (PBool True)) ''is_trained''
                = Some (PBool True))
       \<and> train cname self =
            (if truthy t then [LogWarning (trained_already cname)] else [], Inr PNone,
             setattr self ''is_trained'' (PBool True))
       \<and> train cname (setattr self ''is_trained'' (PBool True)) =
            ([LogWarning (trained_already cname)], Inr PNone,
             setattr self ''is_trained'' (PBool True))
       \<and> map_of (setattr self ''is_trained'' (PBool True)) ''is_trained'' = Some (PBool True)"
proof (intro conjI impI)
  assume f: "func self = (Inr r1, s1)" "map_of s1 ''logger'' = Some (Logger n' v')"
    "func (setattr s1 ''is_trained'' (PBool True)) = (Inr r2, s2)"
  show "as_train_func func cname self =
              (if truthy t then [LogWarning (trained_already cname)] else [], Inr r1,
               setattr s1 ''is_trained'' (PBool True))"
    using assms f by (simp add: as_train_func_def)
  show "as_train_func func cname (setattr s1 ''is_trained'' (PBool True)) =
              ([LogWarning (trained_already cname)], Inr r2,
               setattr s2 ''is_trained'' (PBool True))"
    using f by (simp add: as_train_func_def map_of_setattr)
  show "map_of (setattr s2 ''is_trained'' (PBool True)) ''is_trained'' = Some (PBool True)"
    by (simp add: map_of_setattr)
next
  show "train cname self =
            (if truthy t then [LogWarning (trained_already cname)] else [], Inr PNone,
             setattr self ''is_trained'' (PBool True))"
    using assms by (simp add: train_def as_train_func_def TrainableBase_train_def)
  show "train cname (setattr self ''is_trained'' (PBool True)) =
            ([LogWarning (trained_already cname)], Inr PNone,
             setattr self ''is_trained'' (PBool True))"
    using assms
    by (simp add: train_def as_train_func_def TrainableBase_train_def map_of_setattr
        setattr_twice)
  show "map_of (setattr self ''is_trained'' (PBool True)) ''is_trained'' = Some (PBool True)"
    by (simp add: map_of_setattr)
qed

theorem train_twice_witness:
  "train ''TrainableBase'' new_TrainableBase =
     ([], Inr PNone, setattr new_TrainableBase ''is_trained'' (PBool True))
   \<and> train ''TrainableBase'' (setattr new_TrainableBase ''is_trained'' (PBool True)) =
     ([LogWarning (trained_already ''TrainableBase'')], Inr PNone,
      setattr new_TrainableBase ''is_trained'' (PBool True))
   \<and> as_train_func TrainableBase_train ''TrainableBase''
        (setattr new_TrainableBase ''is_trained'' (PBool True)) =
     ([LogWarning (trained_already ''TrainableBase'')], Inr PNone,
      setattr new_TrainableBase ''is_trained'' (PBool True))
   \<and> map_of (setattr new_TrainableBase ''is_trained'' (PBool True)) ''is_trained'' =
       Some (PBool True)"
proof -
  have a: "map_of new_TrainableBase ''is_trained'' = Some (PBool False)"
    and b: "map_of new_TrainableBase ''logger'' = Some (Logger ''TrainableBase'' (PBool False))"
    by (simp_all add: new_TrainableBase_def)
  have c: "TrainableBase_train new_TrainableBase = (Inr PNone, new_TrainableBase)"
    and d: "TrainableBase_train (setattr new_TrainableBase ''is_trained'' (PBool True)) =
              (Inr PNone, setattr new_TrainableBase ''is_trained'' (PBool True))"
    by (simp_all add: TrainableBase_train_def)
  from train_twice[OF a b, where func=TrainableBase_train and ?r1.0=PNone
      and ?s1.0=new_TrainableBase and n'="''TrainableBase''" and v'="PBool False"
      and ?r2.0=PNone and ?s2.0="setattr new_TrainableBase ''is_trained'' (PBool True)"
      and cname="''TrainableBase''"] b c d
  show ?thesis
    by (simp add: setattr_twice)
qed

section \<open>Loading the vector table\<close>

lemma split_on_nonempty: "split_on c s \<noteq> []"
  by (induction s) (auto split: list.splits)

lemma fields_nonempty: "fields l \<noteq> []"
  by (simp add: fields_def split_on_nonempty)

lemma load_rows_after_header:
  "\<not> count < skiprows \<Longrightarrow>
   load_rows float_of skiprows dimension count df lines =
     store_rows float_of df (filter (\<lambda>row. int (length row) \<ge> dimension + 1) (map fields lines))"
proof (induction lines arbitrary: df)
  case Nil
  then show ?case by simp
next
  case (Cons l lines)
  show ?case
  proof (cases "int (length (fields l)) > dimension")
    case True
    then show ?thesis using Cons fields_nonempty[of l]
      by (auto simp: Let_def split: list.splits sum.splits)
  next
    case False
    then show ?thesis using Cons by (simp add: Let_def)
  qed
qed

lemma load_rows_store_rows:
  "load_rows float_of skiprows dimension count df lines =
     store_rows float_of df (retained_rows (skiprows - count) dimension lines)"
proof (induction lines arbitrary: count)
  case Nil
  then show ?case by (simp add: retained_rows_def)
next
  case (Cons l lines)
  show ?case
  proof (cases "count < skiprows")
    case True
    then have "nat (skiprows - count) = Suc (nat (skiprows - (count + 1)))" by simp
    with True Cons[of "count + 1"] show ?thesis
      by (simp add: retained_rows_def Let_def)
  next
    case False
    then have "nat (skiprows - count) = 0" by simp
    with False show ?thesis
      by (simp add: load_rows_after_header retained_rows_def del: load_rows.simps)
  qed
qed

lemma floats_length: "floats float_of fs = Inr v \<Longrightarrow> length v = length fs"
  by (induction fs arbitrary: v) (auto split: option.splits sum.splits)

lemma floats_returns:
  "(\<exists>v. floats float_of fs = Inr v) \<longleftrightarrow> (\<forall>f \<in> set fs. float_of f \<noteq> None)"
  by (induction fs) (auto split: option.splits sum.splits)

lemma store_rows_returns:
  "[] \<notin> set rows \<Longrightarrow>
   (\<exists>df'. store_rows float_of df rows = Inr df') \<longleftrightarrow>
     (\<forall>row \<in> set rows. \<forall>f \<in> set (tl row). float_of f \<noteq> None)"
proof (induction rows arbitrary: df)
  case Nil
  then show ?case by simp
next
  case (Cons row rows)
  then obtain w fs where row: "row = w # fs" by (cases row) auto
  show ?case
  proof (cases "floats float_of fs")
    case (Inl e)
    with floats_returns[of float_of fs] have "\<not> (\<forall>f \<in> set fs. float_of f \<noteq> None)" by simp
    with Inl row show ?thesis by simp
  next
    case (Inr v)
    with floats_returns[of float_of fs] have "\<forall>f \<in> set fs. float_of f \<noteq> None" by blast
    with Inr row Cons.IH[of "AList.update w v df"] Cons.prems show ?thesis by simp
  qed
qed

lemma store_rows_keys:
  "store_rows float_of df rows = Inr df' \<Longrightarrow>
   fst ` set df' = fst ` set df \<union> hd ` set rows"
proof (induction rows arbitrary: df)
  case Nil
  then show ?case by simp
next
  case (Cons row rows)
  then obtain w fs v where row: "row = w # fs" and v: "floats float_of fs = Inr v"
    and rest: "store_rows float_of (AList.update w v df) rows = Inr df'"
    by (auto split: list.splits sum.splits)
  from Cons.IH[OF rest] row show ?case by (auto simp: dom_update)
qed

lemma store_rows_distinct:
  "store_rows float_of df rows = Inr df' \<Longrightarrow> distinct (map fst df) \<Longrightarrow> distinct (map fst df')"
proof (induction rows arbitrary: df)
  case Nil
  then show ?case by simp
next
  case (Cons row rows)
  then obtain w fs v where row: "row = w # fs" and v: "floats float_of fs = Inr v"
    and rest: "store_rows float_of (AList.update w v df) rows = Inr df'"
    by (auto split: list.splits sum.splits)
  from Cons.IH[OF rest] Cons.prems(2) show ?case by (simp add: distinct_update)
qed

lemma set_update_subset: "set (AList.update k v al) \<subseteq> insert (k, v) (set al)"
  by (induction al) auto

lemma store_rows_entries:
  "store_rows float_of df rows = Inr df' \<Longrightarrow> (w, v) \<in> set df' \<Longrightarrow>
   (w, v) \<in> set df \<or> (\<exists>row \<in> set rows. w = hd row \<and> length v = length row - 1)"
proof (induction rows arbitrary: df)
  case Nil
  then show ?case by simp
next
  case (Cons row rows)
  from Cons.prems(1) obtain w' fs v' where row: "row = w' # fs" and v': "floats float_of fs = Inr v'"
    and rest: "store_rows float_of (AList.update w' v' df) rows = Inr df'"
    by (auto split: list.splits sum.splits)
  from Cons.IH[OF rest Cons.prems(2)] consider
    "(w, v) \<in> set (AList.update w' v' df)"
    | "\<exists>row \<in> set rows. w = hd row \<and> length v = length row - 1" by blast
  then show ?case
  proof cases
    case 1
    with set_update_subset[of w' v' df] have "(w, v) = (w', v') \<or> (w, v) \<in> set df" by blast
    with row floats_length[OF v'] show ?thesis by auto
  next
    case 2
    then show ?thesis by auto
  qed
qed


lemma new_encoder2:
  "metaclass_call Word2VecEncoder [PStr ''m''] [(''dimension'', PInt 2)] = Inr new_encoder2"
  by (simp add: metaclass_call_def cls_init_def Word2VecEncoder_def store_init_kwargs_fresh
      Word2VecEncoder_init_def bind_arguments_def Word2VecEncoder_parameters_def taboo_def
      store_init_kwargs_super TrainableBase_init_def Let_def setattr_def
      default_property_def hasattr_def new_encoder2_def captured_kwargs_def)

lemma fields_examples:
  "fields ''2 2'' = [''2'', ''2'']" "fields ''a 1 0'' = [''a'', ''1'', ''0'']"
  "fields ''b 3 0'' = [''b'', ''3'', ''0'']" "fields ''a 1 2 3'' = [''a'', ''1'', ''2'', ''3'']"
  "fields ''b 4 5'' = [''b'', ''4'', ''5'']" "fields ''b 6 7'' = [''b'', ''6'', ''7'']"
  by (simp_all add: fields_def strip_def is_space_def)

lemma float_of_digits_examples:
  "float_of_digits ''0'' = Some 0" "float_of_digits ''1'' = Some 1"
  "float_of_digits ''2'' = Some 2" "float_of_digits ''3'' = Some 3"
  "float_of_digits ''4'' = Some 4" "float_of_digits ''5'' = Some 5"
  "float_of_digits ''6'' = Some 6" "float_of_digits ''7'' = Some 7"
  by (simp_all add: float_of_digits_def)

lemma load_example:
  "load_rows float_of_digits 1 2 0 [] example_lines = Inr [(''a'', [1, 0]), (''b'', [3, 0])]"
  by (simp add: example_lines_def fields_examples float_of_digits_examples)

lemma post_init_skiprows:
  assumes "int_attr self ''skiprows'' = Inr skiprows"
  shows "post_init float_of lines self =
     (case int_attr self ''dimension'' of
        Inl e \<Rightarrow> Inl e
      | Inr dimension \<Rightarrow>
          (case load_rows float_of skiprows dimension 0 [] lines of
             Inl e \<Rightarrow> Inl e
           | Inr df \<Rightarrow>
               (case np_zeros (case map_of self ''dimension'' of
                                 None \<Rightarrow> PNone | Some d \<Rightarrow> d) of
                  Inl e \<Rightarrow> Inl e
                | Inr zeros \<Rightarrow>
                    Inr (setattr
                           (setattr self ''word2vec_df''
                              (PDict (map (\<lambda>(k, v). (k, NdArray v)) df)))
                           ''empty'' zeros))))"
  by (cases "lines = []") (simp_all add: post_init_def assms split: sum.splits)

lemma np_zeros_attr:
  assumes "int_attr self ''dimension'' = Inr dimension"
  shows "np_zeros (case map_of self ''dimension'' of None \<Rightarrow> PNone | Some d \<Rightarrow> d) = Inr z
         \<longleftrightarrow> map_of self ''dimension'' = Some (PInt dimension) \<and> 0 \<le> dimension
             \<and> z = NdArray (replicate (nat dimension) 0)"
  using assms
  by (auto simp: int_attr_def np_zeros_def split: option.splits pyval.splits if_splits)

lemma new_encoder2_skiprows: "int_attr new_encoder2 ''skiprows'' = Inr 1"
  by (simp add: int_attr_def new_encoder2_def)

lemma post_init_example:
  "post_init float_of_digits example_lines new_encoder2 = Inr example_encoder"
  by (simp only: post_init_skiprows[OF new_encoder2_skiprows])
     (simp add: int_attr_def new_encoder2_def load_example example_encoder_def setattr_def
        numeral_2_eq_2 np_zeros_def)

text \<open>
  C4, as the code has it. When \<^verbatim>\<open>skiprows\<close> and \<^verbatim>\<open>dimension\<close> are integers (or booleans,
  which the loop compares as 1 and 0), \<^verbatim>\<open>_post_init\<close> returns exactly when \<^verbatim>\<open>dimension\<close> is
  an integer that is not negative and every field after the first of every retained row
  is a number. It then leaves a table in which every vector has at least
  \<^verbatim>\<open>dimension\<close> entries, one less than the fields of a retained row with that token (a
  longer row is kept whole); the tokens of the table are the first fields of the retained
  rows, so the table has as many entries as there are different first fields: at most the
  number of retained rows, and that number when no token is repeated.
\<close>

theorem post_init_table:
  assumes sk: "int_attr self ''skiprows'' = Inr skiprows"
    and dm: "int_attr self ''dimension'' = Inr dimension"
  shows "((\<exists>self'. post_init float_of lines self = Inr self') \<longleftrightarrow>
            (map_of self ''dimension'' = Some (PInt dimension) \<and> 0 \<le> dimension \<and>
             (\<forall>row \<in> set (retained_rows skiprows dimension lines).
                \<forall>f \<in> set (tl row). float_of f \<noteq> None)))
       \<and> (\<forall>self'. post_init float_of lines self = Inr self' \<longrightarrow>
            (\<exists>df. load_rows float_of skiprows dimension 0 [] lines = Inr df
               \<and> map_of self' ''word2vec_df'' = Some (PDict (map (\<lambda>(k, v). (k, NdArray v)) df))
               \<and> map_of self' ''empty'' = Some (NdArray (replicate (nat dimension) 0))
               \<and> (\<forall>(w, v) \<in> set df.
                    dimension \<le> int (length v)
                    \<and> (\<exists>row \<in> set (retained_rows skiprows dimension lines).
                          w = hd row \<and> length v = length row - 1))
               \<and> fst ` set df = hd ` set (retained_rows skiprows dimension lines)
               \<and> length df = card (hd ` set (retained_rows skiprows dimension lines))
               \<and> length df \<le> length (retained_rows skiprows dimension lines)
               \<and> (distinct (map hd (retained_rows skiprows dimension lines)) \<longrightarrow>
                    length df = length (retained_rows skiprows dimension lines))))"
proof (intro conjI allI impI)
  let ?rows = "retained_rows skiprows dimension lines"
  have ne: "[] \<notin> set ?rows"
    by (auto simp: retained_rows_def fields_nonempty[symmetric])
  have lr: "load_rows float_of skiprows dimension 0 [] lines = store_rows float_of [] ?rows"
    using load_rows_store_rows[of float_of skiprows dimension 0 "[]" lines] by simp
  show "(\<exists>self'. post_init float_of lines self = Inr self') \<longleftrightarrow>
          (map_of self ''dimension'' = Some (PInt dimension) \<and> 0 \<le> dimension
           \<and> (\<forall>row \<in> set ?rows. \<forall>f \<in> set (tl row). float_of f \<noteq> None))"
  proof (cases "store_rows float_of [] ?rows")
    case (Inl e)
    with store_rows_returns[OF ne, of float_of "[]"]
    have "\<not> (\<forall>row \<in> set ?rows. \<forall>f \<in> set (tl row). float_of f \<noteq> None)" by simp
    with Inl dm show ?thesis by (simp add: post_init_skiprows[OF sk] lr)
  next
    case (Inr df)
    with store_rows_returns[OF ne, of float_of "[]"]
    have a: "\<forall>row \<in> set ?rows. \<forall>f \<in> set (tl row). float_of f \<noteq> None" by blast
    show ?thesis
    proof (cases "np_zeros (case map_of self ''dimension'' of None \<Rightarrow> PNone | Some d \<Rightarrow> d)")
      case (Inl e)
      with np_zeros_attr[OF dm] have "\<not> (map_of self ''dimension'' = Some (PInt dimension)
                                            \<and> 0 \<le> dimension)"
        by (metis sum.distinct(1))
      with Inl Inr dm show ?thesis by (auto simp: post_init_skiprows[OF sk] lr)
    next
      case z: (Inr zeros)
      with np_zeros_attr[OF dm, of zeros]
      have "map_of self ''dimension'' = Some (PInt dimension) \<and> 0 \<le> dimension" by simp
      with z Inr dm a show ?thesis by (simp add: post_init_skiprows[OF sk] lr)
    qed
  qed
  fix self'
  assume p: "post_init float_of lines self = Inr self'"
  with sk dm obtain df where df: "store_rows float_of [] ?rows = Inr df"
    and w: "map_of self' ''word2vec_df'' = Some (PDict (map (\<lambda>(k, v). (k, NdArray v)) df))"
    and e: "map_of self' ''empty'' = Some (NdArray (replicate (nat dimension) 0))"
    by (auto simp: post_init_skiprows[OF sk] lr map_of_setattr np_zeros_attr[OF dm]
        split: sum.splits)
  have keys: "fst ` set df = hd ` set ?rows"
    using store_rows_keys[OF df] by simp
  have dist: "distinct (map fst df)"
    using store_rows_distinct[OF df] by simp
  have len: "length df = card (hd ` set ?rows)"
    using distinct_card[OF dist] keys by simp
  have ent: "\<forall>(w, v) \<in> set df.
               dimension \<le> int (length v)
               \<and> (\<exists>row \<in> set ?rows. w = hd row \<and> length v = length row - 1)"
  proof (clarify)
    fix w v
    assume "(w, v) \<in> set df"
    with store_rows_entries[OF df] obtain row where
      r: "row \<in> set ?rows" "w = hd row" "length v = length row - 1" by auto
    from r(1) have "dimension + 1 \<le> int (length row)" by (simp add: retained_rows_def)
    with r show "dimension \<le> int (length v)
                 \<and> (\<exists>row \<in> set ?rows. w = hd row \<and> length v = length row - 1)" by auto
  qed
  have le: "length df \<le> length ?rows"
    using len card_image_le[of "set ?rows" hd] card_length[of ?rows] by simp
  have eq: "distinct (map hd ?rows) \<longrightarrow> length df = length ?rows"
    using len distinct_card[of "map hd ?rows"] by auto
  show "\<exists>df. load_rows float_of skiprows dimension 0 [] lines = Inr df
          \<and> map_of self' ''word2vec_df'' = Some (PDict (map (\<lambda>(k, v). (k, NdArray v)) df))
          \<and> map_of self' ''empty'' = Some (NdArray (replicate (nat dimension) 0))
          \<and> (\<forall>(w, v) \<in> set df.
               dimension \<le> int (length v)
               \<and> (\<exists>row \<in> set ?rows. w = hd row \<and> length v = length row - 1))
          \<and> fst ` set df = hd ` set ?rows
          \<and> length df = card (hd ` set ?rows)
          \<and> length df \<le> length ?rows
          \<and> (distinct (map hd ?rows) \<longrightarrow> length df = length ?rows)"
    using df w e keys len ent le eq lr by auto
qed


theorem post_init_table_witness:
  "post_init float_of_digits example_lines new_encoder2 = Inr example_encoder
   \<and> map_of example_encoder ''word2vec_df'' =
       Some (PDict [(''a'', NdArray [1, 0]), (''b'', NdArray [3, 0])])
   \<and> card (hd ` set (retained_rows 1 2 example_lines)) = 2"
proof -
  have sk: "int_attr new_encoder2 ''skiprows'' = Inr 1"
    and dm: "int_attr new_encoder2 ''dimension'' = Inr 2"
    by (simp_all add: int_attr_def new_encoder2_def)
  from post_init_table[OF sk dm, of float_of_digits example_lines] post_init_example
  obtain df where "load_rows float_of_digits 1 2 0 [] example_lines = Inr df"
    and "length df = card (hd ` set (retained_rows 1 2 example_lines))"
    by blast
  then have "card (hd ` set (retained_rows 1 2 example_lines)) = 2"
    by (auto simp: load_example)
  then show ?thesis
    by (simp add: post_init_example) (simp add: example_encoder_def new_encoder2_def)
qed

text \<open>
  C4 as stated fails on a file with header \<^verbatim>\<open>2 2\<close> and three more rows, for dimension 2:
  the row \<^verbatim>\<open>a 1 2 3\<close> has four fields and gives a vector of length 3, and the token \<^verbatim>\<open>b\<close>
  comes twice and gives one entry, so three rows are retained and the table has two
  entries.
\<close>

theorem load_ragged_counterexample:
  "attr_of (post_init float_of_digits ragged_lines new_encoder2) ''word2vec_df'' =
     Some (PDict [(''a'', NdArray [1, 2, 3]), (''b'', NdArray [6, 7])])
   \<and> length (retained_rows 1 2 ragged_lines) = 3"
  by (simp only: post_init_skiprows[OF new_encoder2_skiprows])
     (simp add: int_attr_def new_encoder2_def ragged_lines_def fields_examples
        float_of_digits_examples attr_of_def setattr_def retained_rows_def np_zeros_def)

section \<open>Encoding\<close>

lemma layer_data_cong:
  "map_of s1 ''word2vec_df'' = map_of s2 ''word2vec_df'' \<Longrightarrow>
   map_of s1 ''empty'' = map_of s2 ''empty'' \<Longrightarrow>
   layer_data s1 tokens = layer_data s2 tokens"
  by (induction tokens) (simp_all split: option.splits pyval.splits)

lemma space_tokenizer_examples:
  "space_tokenizer ''a b'' = [''a'', ''b'']" "space_tokenizer [] = []"
  by (simp_all add: space_tokenizer_def)

lemma example_encoder_attrs:
  "map_of example_encoder ''logger'' = Some (Logger ''Word2VecEncoder'' (PBool False))"
  "map_of example_encoder ''word2vec_df'' =
     Some (PDict [(''a'', NdArray [1, 0]), (''b'', NdArray [3, 0])])"
  "map_of example_encoder ''empty'' = Some (NdArray [0, 0])"
  by (simp_all add: example_encoder_def new_encoder2_def)

lemma pooled_data_example:
  "pooled_data space_tokenizer example_encoder [''a b''] = Inr [Mean [2, 0]]"
  by (simp add: pooled_data_def example_encoder_attrs space_tokenizer_examples np_mean_def)

text \<open>
  C2: \<^verbatim>\<open>encode\<close> is meant to return the means, one vector per input string. The code
  computes them (for the two tokens with vectors \<^verbatim>\<open>[1,0]\<close> and \<^verbatim>\<open>[3,0]\<close> the pooled value
  is \<^verbatim>\<open>[2,0]\<close>) and then raises at \<^verbatim>\<open>.astye\<close> in its last line: no call of \<^verbatim>\<open>encode\<close>
  returns a value.
\<close>

theorem encode_never_returns:
  "encode tokenize self text \<noteq> Inr result
   \<and> pooled_data space_tokenizer example_encoder [''a b''] = Inr [Mean [2, 0]]
   \<and> encode space_tokenizer example_encoder [''a b''] = Inl (AttributeError ''astye'')"
  by (simp add: encode_def pooled_data_example np_array_def split: sum.splits)

text \<open>
  C3: on a string without tokens the claim asks for the zero vector. In the code the mean
  over the empty list of token vectors is \<^verbatim>\<open>nan\<close> (the zero vector is the fallback of
  unknown tokens only), and the call then raises at \<^verbatim>\<open>.astye\<close>.
\<close>

theorem encode_no_tokens:
  assumes "tokenize s = []"
    and "map_of self ''logger'' = Some (Logger n v)"
  shows "pooled_data tokenize self [s] = Inr [NaN]
       \<and> encode tokenize self [s] = Inl (AttributeError ''astye'')"
  using assms by (simp add: encode_def pooled_data_def np_mean_def np_array_def)

theorem encode_no_tokens_witness:
  "pooled_data space_tokenizer example_encoder [[]] = Inr [NaN]
   \<and> encode space_tokenizer example_encoder [[]] = Inl (AttributeError ''astye'')"
  using encode_no_tokens[where tokenize=space_tokenizer and s="[]" and self=example_encoder,
      OF space_tokenizer_examples(2) example_encoder_attrs(1)] .

text \<open>
  C5, as the code has it: \<^verbatim>\<open>encode\<close> never reads the configured pooling strategy. Whatever
  the strategy is set to, the pooled values and the outcome of \<^verbatim>\<open>encode\<close> are those of the
  same object with any other strategy; and the constructor stores whatever strategy it is
  given.
\<close>

theorem pooling_strategy_ignored:
  "pooled_data tokenize (setattr self ''pooling_strategy'' p) text = pooled_data tokenize self text
   \<and> encode tokenize (setattr self ''pooling_strategy'' p) text = encode tokenize self text
   \<and> attr_of (metaclass_call Word2VecEncoder [model_dir] [(''pooling_strategy'', p)])
         ''pooling_strategy'' = Some p"
proof -
  have stored: "attr_of (metaclass_call Word2VecEncoder [model_dir] [(''pooling_strategy'', p)])
                  ''pooling_strategy'' = Some p"
    by (simp add: metaclass_call_def cls_init_def Word2VecEncoder_def store_init_kwargs_fresh
        Word2VecEncoder_init_def bind_arguments_def Word2VecEncoder_parameters_def taboo_def
        store_init_kwargs_super TrainableBase_init_def Let_def map_of_setattr
        attr_of_def map_of_defaults split: option.splits)
  have l: "layer_data (setattr self ''pooling_strategy'' p) = layer_data self"
    by (rule ext, rule layer_data_cong) (simp_all add: map_of_setattr)
  have "pooled_data tokenize (setattr self ''pooling_strategy'' p) text
        = pooled_data tokenize self text"
    by (simp add: pooled_data_def l map_of_setattr split: option.splits pyval.splits)
  with stored show ?thesis by (simp add: encode_def)
qed

text \<open>
  C5 as stated fails: the constructor accepts the strategy \<^verbatim>\<open>REDUCE_MAX\<close>, and on an encoder
  with that strategy the pooled value of two tokens with vectors \<^verbatim>\<open>[1,0]\<close> and \<^verbatim>\<open>[3,0]\<close> is
  their mean \<^verbatim>\<open>[2,0]\<close>; the error the call ends with is the \<^verbatim>\<open>AttributeError\<close> of every call,
  not one about the configuration.
\<close>

theorem pooling_strategy_counterexample:
  "attr_of (metaclass_call Word2VecEncoder [PStr ''m'']
              [(''dimension'', PInt 2), (''pooling_strategy'', PStr ''REDUCE_MAX'')])
     ''pooling_strategy'' = Some (PStr ''REDUCE_MAX'')
   \<and> pooled_data space_tokenizer
        (setattr example_encoder ''pooling_strategy'' (PStr ''REDUCE_MAX'')) [''a b'']
      = Inr [Mean [2, 0]]
   \<and> encode space_tokenizer
        (setattr example_encoder ''pooling_strategy'' (PStr ''REDUCE_MAX'')) [''a b'']
      = Inl (AttributeError ''astye'')"
  by (simp add: metaclass_call_def cls_init_def Word2VecEncoder_def store_init_kwargs_fresh
      Word2VecEncoder_init_def bind_arguments_def Word2VecEncoder_parameters_def taboo_def
      store_init_kwargs_super TrainableBase_init_def Let_def setattr_def
      default_property_def hasattr_def captured_kwargs_def attr_of_def
      encode_def pooled_data_def example_encoder_def new_encoder2_def
      space_tokenizer_examples np_mean_def np_array_def)

section \<open>Binary serialization\<close>

lemma py_del_Inr: "py_del d k = Inr d' \<longleftrightarrow> map_of d k \<noteq> None \<and> d' = AList.delete k d"
  by (auto simp: py_del_def)






section \<open>Structured serialization\<close>


lemma yaml_items_keys: "yaml_items d = Inr d' \<Longrightarrow> map fst d' = map fst d"
  by (induction d arbitrary: d') (auto split: sum.splits)

lemma yaml_items_append:
  "yaml_items xs = Inr xs' \<Longrightarrow> yaml_items ys = Inr ys' \<Longrightarrow>
   yaml_items (xs @ ys) = Inr (xs' @ ys')"
  by (induction xs arbitrary: xs') (auto split: sum.splits)




lemma property_items_eq:
  "map_of c ''is_trained'' = Some t \<Longrightarrow> map_of c ''batch_size'' = Some b \<Longrightarrow>
   property_items c default_property = Inr (override_items t b)"
  by (simp add: default_property_def override_items_def)

lemma dump_instance_to_yaml_eq:
  assumes "map_of c ''_init_kwargs_dict'' = Some (PDict cfg)"
    and "map_of c ''is_trained'' = Some t" and "map_of c ''batch_size'' = Some b"
  shows "dump_instance_to_yaml c = Inr (document cfg (override_items t b))"
  using assms by (simp add: dump_instance_to_yaml_def property_items_eq document_def)





lemma store_init_kwargs_new:
  "store_init_kwargs pars func cname flag [] args kwargs =
     func cname flag [(''_init_kwargs_dict'', PDict (captured_kwargs pars flag args kwargs))]
       args kwargs"
  by (simp add: store_init_kwargs_def self_store_args_kwargs_def setattr_def)

lemma metaclass_call_body:
  assumes "metaclass_call cls args kwargs = Inr obj"
  shows "\<exists>s. init_func cls (cls_name cls) (store_args_kwargs cls)
               [(''_init_kwargs_dict'',
                 PDict (captured_kwargs (parameters cls) (store_args_kwargs cls) args kwargs))]
               args kwargs = Inr s
             \<and> obj = fold (\<lambda>(k, v) obj. if \<not> hasattr obj k then setattr obj k v else obj)
                       default_property s"
  using assms
  by (auto simp: metaclass_call_def cls_init_def store_init_kwargs_new
      split: if_splits sum.splits)

lemma metaclass_call_properties:
  assumes "metaclass_call cls args kwargs = Inr obj"
  shows "\<exists>t. map_of obj ''is_trained'' = Some t" and "\<exists>b. map_of obj ''batch_size'' = Some b"
proof -
  from metaclass_call_body[OF assms] obtain s where
    obj: "obj = fold (\<lambda>(k, v) obj. if \<not> hasattr obj k then setattr obj k v else obj)
                  default_property s" by blast
  show "\<exists>t. map_of obj ''is_trained'' = Some t"
    unfolding obj map_of_defaults by (simp add: default_property_def split: option.splits)
  show "\<exists>b. map_of obj ''batch_size'' = Some b"
    unfolding obj map_of_defaults by (simp add: default_property_def split: option.splits)
qed





lemmas construct_simps =
  metaclass_call_def cls_init_def Word2VecEncoder_def store_init_kwargs_def
  self_store_args_kwargs_def
  Word2VecEncoder_init_def bind_arguments_def Word2VecEncoder_parameters_def taboo_def
  TrainableBase_parameters_def TrainableBase_init_def Let_def setattr_def
  default_property_def hasattr_def captured_kwargs_def dict_update_def

lemmas yaml_simps =
  round_trip_twice_def structured_round_trip_def dump_instance_to_yaml_def from_yaml_def
  get_instance_from_yaml_def construct_from_parameter_def then_do_def attr_of_def
  non_default_property_def

lemmas example_class_simps =
  Bar_def Baz_def Bar_parameters_def Baz_parameters_def Foo_parameters_def Foo_init_def
  forwarding_init_def nothing_first_def a_plus_1_def TrainableBase_def
  raw_TrainableBase_def raw_Word2VecEncoder_def


lemma Word2VecEncoder_class:
  "\<not> store_args_kwargs Word2VecEncoder"
  "distinct (map fst (parameters Word2VecEncoder))"
  "map fst default_config = filter (\<lambda>k. k \<notin> taboo) (map fst (parameters Word2VecEncoder))"
  "plain_items default_config"
  by (simp_all add: Word2VecEncoder_def Word2VecEncoder_parameters_def default_config_def
      taboo_def)

lemma Word2VecEncoder_keeps: "keeps_config Word2VecEncoder"
  unfolding keeps_config_def
  using Word2VecEncoder_init_attrs(1)[of "''Word2VecEncoder''"]
  by (simp add: Word2VecEncoder_def)

lemma TrainableBase_keeps: "keeps_config TrainableBase"
  by (simp add: keeps_config_def TrainableBase_def TrainableBase_init_def Let_def map_of_setattr)










section \<open>Keywords that are not parameters\<close>

lemma captured_kwargs_undeclared:
  assumes "k \<notin> fst ` set all_pars"
  shows "map_of (captured_kwargs all_pars False args kwargs) k = None"
proof -
  have "set (map fst (captured_kwargs all_pars False args kwargs)) \<subseteq> set (map fst all_pars)"
    unfolding captured_kwargs_keys by auto
  with assms have "k \<notin> fst ` set (captured_kwargs all_pars False args kwargs)"
    by auto
  then show ?thesis by (simp add: map_of_eq_None_iff)
qed

lemma keeps_config_leaves_out: "keeps_config cls \<Longrightarrow> leaves_out cls k"
  unfolding keeps_config_def leaves_out_def by blast

lemma fold_setattr_other:
  "x \<notin> fst ` set props \<Longrightarrow>
   map_of (fold (\<lambda>(k, v) obj. setattr obj k v) props obj) x = map_of obj x"
  by (induction props arbitrary: obj) (auto simp: map_of_setattr)

lemma yaml_items_map_of:
  "yaml_items d = Inr d' \<Longrightarrow>
   map_of d' k =
     (case map_of d k of
        None \<Rightarrow> None
      | Some v \<Rightarrow> (case yaml_data v of Inl e \<Rightarrow> None | Inr v' \<Rightarrow> Some v'))"
  by (induction d arbitrary: d') (auto split: sum.splits)

lemma from_yaml_result:
  assumes "\<not> store_args_kwargs cls" and "from_yaml cls data = Inr obj2"
  shows "\<exists>p obj1 props.
           metaclass_call cls [] p = Inr obj1
           \<and> obj2 = fold (\<lambda>(k, v) obj. setattr obj k v) props obj1
           \<and> (map_of data ''property'' = None \<and> props = []
                \<or> map_of data ''property'' = Some (PDict props))"
  using assms
  by (auto simp: from_yaml_def get_instance_from_yaml_def construct_from_parameter_def
      split: sum.splits option.splits pyval.splits prod.splits)

lemma metaclass_call_leaves_out:
  assumes flag: "\<not> store_args_kwargs cls"
    and out: "leaves_out cls k"
    and undeclared: "k \<notin> fst ` set (parameters cls)"
    and built: "metaclass_call cls args kwargs = Inr obj"
  shows "\<exists>cfg. map_of obj ''_init_kwargs_dict'' = Some (PDict cfg) \<and> map_of cfg k = None"
proof -
  from metaclass_call_body[OF built] flag obtain s where
    s: "init_func cls (cls_name cls) (store_args_kwargs cls)
          [(''_init_kwargs_dict'', PDict (captured_kwargs (parameters cls) False args kwargs))]
          args kwargs = Inr s"
    and obj: "obj = fold (\<lambda>(k, v) obj. if \<not> hasattr obj k then setattr obj k v else obj)
                  default_property s" by auto
  from out captured_kwargs_undeclared[OF undeclared, of args kwargs] s
  obtain cfg where "map_of s ''_init_kwargs_dict'' = Some (PDict cfg)" "map_of cfg k = None"
    unfolding leaves_out_def by blast
  with obj show ?thesis by (simp add: map_of_defaults)
qed

text \<open>
  C10, as the code has it. For a class that does not store raw arguments, the wrapper of
  the constructor does not record a keyword whose name is not a parameter of that
  constructor. When the body of the constructor does not bring the name into the
  configuration either, the name is not in the configuration of the object built, so not
  in the \<^verbatim>\<open>parameter\<close> mapping of the structured form, and the object loaded from that form
  does not have it in its configuration.
\<close>

theorem undeclared_keyword_dropped:
  assumes flag: "\<not> store_args_kwargs cls"
    and undeclared: "k \<notin> fst ` set (parameters cls)"
    and passed: "map_of kwargs k = Some v"
  shows "map_of (captured_kwargs (parameters cls) False args kwargs) k = None
       \<and> (leaves_out cls k \<longrightarrow> metaclass_call cls args kwargs = Inr obj \<longrightarrow>
            (\<exists>cfg y. map_of obj ''_init_kwargs_dict'' = Some (PDict cfg)
               \<and> map_of cfg k = None
               \<and> dump_instance_to_yaml obj = Inr y
               \<and> (map_of y ''parameter'' = None \<or> map_of y ''parameter'' = Some (PDict cfg))
               \<and> (\<forall>obj2. structured_round_trip cls obj = Inr obj2 \<longrightarrow>
                     (\<exists>cfg2. map_of obj2 ''_init_kwargs_dict'' = Some (PDict cfg2)
                        \<and> map_of cfg2 k = None))))"
proof (intro conjI impI)
  show "map_of (captured_kwargs (parameters cls) False args kwargs) k = None"
    by (rule captured_kwargs_undeclared[OF undeclared])
next
  assume out: "leaves_out cls k" and built: "metaclass_call cls args kwargs = Inr obj"
  from metaclass_call_leaves_out[OF flag out undeclared built] obtain cfg where
    cfg: "map_of obj ''_init_kwargs_dict'' = Some (PDict cfg)" and k: "map_of cfg k = None"
    by blast
  from metaclass_call_properties[OF built] obtain t b where
    t: "map_of obj ''is_trained'' = Some t" and b: "map_of obj ''batch_size'' = Some b"
    by blast
  let ?p = "override_items t b"
  let ?y = "document cfg ?p"
  have y: "dump_instance_to_yaml obj = Inr ?y"
    by (rule dump_instance_to_yaml_eq[OF cfg t b])
  have par: "map_of ?y ''parameter'' = None \<or> map_of ?y ''parameter'' = Some (PDict cfg)"
    by (simp add: document_def)
  have again: "\<exists>cfg2. map_of obj2 ''_init_kwargs_dict'' = Some (PDict cfg2) \<and> map_of cfg2 k = None"
    if l: "structured_round_trip cls obj = Inr obj2" for obj2
  proof -
    from l y obtain y' where y': "yaml_items ?y = Inr y'" and f: "from_yaml cls y' = Inr obj2"
      by (auto simp: structured_round_trip_def split: sum.splits)
    from from_yaml_result[OF flag f] obtain p obj1 props where
      o1: "metaclass_call cls [] p = Inr obj1"
      and o2: "obj2 = fold (\<lambda>(k, v) obj. setattr obj k v) props obj1"
      and pr: "map_of y' ''property'' = None \<and> props = []
               \<or> map_of y' ''property'' = Some (PDict props)"
      by blast
    have "''_init_kwargs_dict'' \<notin> fst ` set props"
    proof (cases "props = []")
      case True
      then show ?thesis by simp
    next
      case False
      with pr have "map_of y' ''property'' = Some (PDict props)" by blast
      with yaml_items_map_of[OF y', of "''property''"]
      have "?p \<noteq> [] \<and> yaml_data (PDict ?p) = Inr (PDict props)"
        by (auto simp: document_def split: if_splits sum.splits)
      then have "yaml_items ?p = Inr props" by (auto split: sum.splits)
      from yaml_items_keys[OF this] have "set (map fst props) = set (map fst ?p)" by simp
      then have "fst ` set props = fst ` set ?p" by simp
      then show ?thesis by (auto simp: override_items_def split: if_splits)
    qed
    with o2 have "map_of obj2 ''_init_kwargs_dict'' = map_of obj1 ''_init_kwargs_dict''"
      by (simp add: fold_setattr_other)
    with metaclass_call_leaves_out[OF flag out undeclared o1] show ?thesis by simp
  qed
  from cfg k y par again
  show "\<exists>cfg y. map_of obj ''_init_kwargs_dict'' = Some (PDict cfg)
               \<and> map_of cfg k = None
               \<and> dump_instance_to_yaml obj = Inr y
               \<and> (map_of y ''parameter'' = None \<or> map_of y ''parameter'' = Some (PDict cfg))
               \<and> (\<forall>obj2. structured_round_trip cls obj = Inr obj2 \<longrightarrow>
                     (\<exists>cfg2. map_of obj2 ''_init_kwargs_dict'' = Some (PDict cfg2)
                        \<and> map_of cfg2 k = None))"
    by blast
qed

lemma verbose_Word2VecEncoder:
  "metaclass_call Word2VecEncoder [PStr ''m''] [(''verbose'', PBool True)]
     = Inr verbose_Word2VecEncoder"
  by (simp add: construct_simps default_config_def verbose_Word2VecEncoder_def)

theorem undeclared_keyword_dropped_witness:
  "metaclass_call Word2VecEncoder [PStr ''m''] [(''verbose'', PBool True)]
     = Inr verbose_Word2VecEncoder
   \<and> map_of (captured_kwargs (parameters Word2VecEncoder) False [PStr ''m'']
               [(''verbose'', PBool True)]) ''verbose'' = None
   \<and> map_of verbose_Word2VecEncoder ''_init_kwargs_dict'' = Some (PDict default_config)
   \<and> map_of default_config ''verbose'' = None
   \<and> attr_of (structured_round_trip Word2VecEncoder verbose_Word2VecEncoder) ''verbose''
       = Some (PBool False)"
proof -
  have u: "''verbose'' \<notin> fst ` set (parameters Word2VecEncoder)"
    by (simp add: Word2VecEncoder_def Word2VecEncoder_parameters_def)
  have p: "map_of [(''verbose'', PBool True)] ''verbose'' = Some (PBool True)" by simp
  note out = keeps_config_leaves_out[OF Word2VecEncoder_keeps, of "''verbose''"]
  from undeclared_keyword_dropped[OF Word2VecEncoder_class(1) u p,
      of "[PStr ''m'']" verbose_Word2VecEncoder] out verbose_Word2VecEncoder
  obtain cfg where
    "map_of (captured_kwargs (parameters Word2VecEncoder) False [PStr ''m'']
               [(''verbose'', PBool True)]) ''verbose'' = None"
    and "map_of verbose_Word2VecEncoder ''_init_kwargs_dict'' = Some (PDict cfg)"
    and "map_of cfg ''verbose'' = None" by blast
  moreover have "map_of verbose_Word2VecEncoder ''_init_kwargs_dict'' = Some (PDict default_config)"
    by (simp add: verbose_Word2VecEncoder_def)
  ultimately have "map_of (captured_kwargs (parameters Word2VecEncoder) False [PStr ''m'']
               [(''verbose'', PBool True)]) ''verbose'' = None"
    and "map_of default_config ''verbose'' = None" by simp_all
  moreover have "attr_of (structured_round_trip Word2VecEncoder verbose_Word2VecEncoder) ''verbose''
       = Some (PBool False)"
    by (simp add: yaml_simps construct_simps verbose_Word2VecEncoder_def default_config_def)
  ultimately show ?thesis
    by (simp add: verbose_Word2VecEncoder) (simp add: verbose_Word2VecEncoder_def)
qed

text \<open>
  C10 as stated fails for \<^verbatim>\<open>Bar\<close>, which does not store raw arguments: \<^verbatim>\<open>a\<close> is not a
  parameter of its constructor, yet \<^verbatim>\<open>Bar(b=4, a=2)\<close> has \<^verbatim>\<open>a\<close> in its configuration, because
  the body passes it on to the constructor of \<^verbatim>\<open>Foo\<close>, whose wrapper merges it (lines
  75-76); the structured form has it and the reloaded object keeps it.
\<close>

theorem inherited_parameter_counterexample:
  "store_args_kwargs Bar = False
   \<and> map_of (parameters Bar) ''a'' = None
   \<and> attr_of (metaclass_call Bar [] [(''b'', PInt 4), (''a'', PInt 2)]) ''_init_kwargs_dict''
       = Some (PDict [(''b'', PInt 4), (''a'', PInt 2)])
   \<and> then_do (metaclass_call Bar [] [(''b'', PInt 4), (''a'', PInt 2)]) dump_instance_to_yaml
       = Inr [(''parameter'', PDict [(''b'', PInt 4), (''a'', PInt 2)])]
   \<and> attr_of (then_do (metaclass_call Bar [] [(''b'', PInt 4), (''a'', PInt 2)])
                 (structured_round_trip Bar)) ''_init_kwargs_dict''
       = Some (PDict [(''b'', PInt 4), (''a'', PInt 2)])"
  by (simp add: yaml_simps construct_simps example_class_simps)

end
